theory Spec2Isabelle
  imports Complex_Main "HOL-Library.Word"
begin

section \<open>Data model\<close>

text \<open>
  \<^verbatim>\<open>ns3::Time\<close> holds a signed tick count (nanoseconds here). The cache only stores and
  compares times, it never adds them, so a time is an integer. Node ids are
  \<^verbatim>\<open>uint32_t\<close>. A \<^verbatim>\<open>double\<close> is modelled as a real number: the cache copies and
  compares the values and performs a single addition and subtraction on them.
\<close>

type_synonym Time = int
type_synonym NodeId = "32 word"

datatype Vector = Vector real real real

text \<open>Outcome of a failed \<^verbatim>\<open>NS_ASSERT_MSG\<close>, of \<^verbatim>\<open>NS_ABORT_MSG\<close>, of \<^verbatim>\<open>NS_FATAL_ERROR\<close>,
  of an indexed read past the end of a repeated message field, and of a call through
  the null helper pointer. Each of them ends the run (assertions are taken as compiled
  in, as in a debug build).\<close>

datatype error =
    AssertFailed string
  | AbortMsg string
  | FatalError string
  | IndexOutOfRange
  | NullPointer

subsection \<open>sionna-propagation-cache.h: CacheKey and CacheEntry\<close>

datatype CacheKey = Key (m_first: NodeId) (m_second: NodeId)

definition CacheKey :: "NodeId \<Rightarrow> NodeId \<Rightarrow> CacheKey" where
  "CacheKey a b = Key (if a < b then a else b) (if a < b then b else a)"

text \<open>\<^verbatim>\<open>CacheKey::operator<\<close>, the order the \<^verbatim>\<open>std::map\<close> is sorted by.\<close>

definition CacheKey_less :: "CacheKey \<Rightarrow> CacheKey \<Rightarrow> bool" where
  "CacheKey_less k other =
     (if m_first k \<noteq> m_first other then m_first k < m_first other
      else m_second k < m_second other)"

record CacheEntry =
  m_delay :: Time
  m_loss :: real
  m_start_time :: Time
  m_end_time :: Time
  m_num_ofdm_subcarrier :: int
  m_a :: NodeId
  m_b :: NodeId
  m_a_position :: Vector
  m_b_position :: Vector
  m_freq :: "int list"
  m_cfr :: "complex list"

text \<open>The nine-argument constructor: the two vectors start empty.\<close>

definition CacheEntry ::
  "Time \<Rightarrow> real \<Rightarrow> Time \<Rightarrow> Time \<Rightarrow> int \<Rightarrow> NodeId \<Rightarrow> NodeId \<Rightarrow> Vector \<Rightarrow> Vector \<Rightarrow> CacheEntry" where
  "CacheEntry delay loss start_time end_time num_ofdm_subcarrier a b a_position b_position =
     \<lparr>m_delay = delay, m_loss = loss, m_start_time = start_time, m_end_time = end_time,
      m_num_ofdm_subcarrier = num_ofdm_subcarrier, m_a = a, m_b = b,
      m_a_position = a_position, m_b_position = b_position, m_freq = [], m_cfr = []\<rparr>"

text \<open>
  What \<^verbatim>\<open>GetPropagationData\<close> hands back: an entry taken from the store, or the
  default-constructed \<^verbatim>\<open>dummy_entry\<close> of its last two lines. The default constructor
  sets \<^verbatim>\<open>m_start_time\<close> and \<^verbatim>\<open>m_end_time\<close> to -1, leaves \<^verbatim>\<open>m_delay\<close> zero, both
  positions at the origin and both vectors empty, and leaves \<^verbatim>\<open>m_loss\<close>,
  \<^verbatim>\<open>m_num_ofdm_subcarrier\<close>, \<^verbatim>\<open>m_a\<close> and \<^verbatim>\<open>m_b\<close> uninitialised.
\<close>

datatype served = Entry CacheEntry | dummy_entry

datatype 'a cxx_value = Value 'a | Indeterminate

subsection \<open>Messages exchanged with the Sionna server\<close>

text \<open>
  \<^verbatim>\<open>message.pb.h\<close> is generated and not part of the sources; the message types below are
  the fields that \<^verbatim>\<open>sionna-helper.cc\<close> and \<^verbatim>\<open>sionna-propagation-cache.cc\<close> read and write.
\<close>

datatype RandomVariableStream_msg =
    Uniform real real
  | Constant real
  | Normal real real

datatype walk_value = wall_value bool | time_value int | distance_value real

datatype NodeInfo_model =
    random_walk_model Vector walk_value RandomVariableStream_msg RandomVariableStream_msg
  | constant_position_model Vector

record NodeInfo =
  node_id :: NodeId
  node_model :: NodeInfo_model

record SimInitMessage =
  scene_fname :: string
  seed :: "32 word"
  frequency :: int
  channel_bw :: int
  fft_size :: int
  min_coherence_time_ms :: int
  time_evo_model :: string
  subcarrier_spacing :: int
  mode :: int
  sub_mode :: int
  nodes :: "NodeInfo list"

record TxNode =
  tx_id :: NodeId
  tx_position :: Vector

record RxNode =
  rx_id :: NodeId
  rx_position :: Vector
  rx_delay :: int
  rx_wb_loss :: real
  rx_frequencies :: "int list"
  rx_csi_real :: "real list"
  rx_csi_imag :: "real list"

record Csi =
  start_time :: int
  end_time :: int
  tx_node :: TxNode
  rx_nodes :: "RxNode list"

datatype Wrapper =
    sim_init_msg SimInitMessage
  | sim_ack bool string
  | channel_state_request NodeId NodeId int
  | channel_state_response "Csi list"
  | sim_close_request
  | no_message

text \<open>What \<^verbatim>\<open>m_zmq_socket.recv\<close> yields: an empty result, or a message that
  \<^verbatim>\<open>ParseFromArray\<close> decodes into a wrapper.\<close>

datatype recv_result = NoReply | Reply Wrapper

record socket =
  sent :: "Wrapper list"
  closed :: bool

subsection \<open>sionna-helper.h and sionna-mobility-model.h\<close>

record SionnaHelper =
  m_environment :: string
  m_mode :: int
  m_sub_mode :: int
  m_frequency :: int
  m_channel_bw :: int
  m_min_coherence_time_ms :: int
  m_fft_size :: int
  m_subcarrier_spacing :: int
  m_time_evo_model :: string
  m_noiseDbm :: real
  m_zmq_socket :: socket

definition GetNoiseFloor :: "SionnaHelper \<Rightarrow> real" where
  "GetNoiseFloor h = m_noiseDbm h"

datatype Model = MODEL_CONSTANT_POSITION | MODEL_RANDOM_WALK
datatype Mode = MODE_DISTANCE | MODE_TIME

datatype RandomVariableStream =
    UniformRandomVariable real real
  | ConstantRandomVariable real
  | NormalRandomVariable real real
  | OtherRandomVariable string

text \<open>The member \<^verbatim>\<open>m_mode\<close> of the mobility model is \<open>m_mode_walk\<close> here, the helper
  has a member of the same name.\<close>

record SionnaMobilityModel =
  m_model :: Model
  m_mode_walk :: Mode
  m_modeDistance :: real
  m_modeTime :: Time
  m_speed :: RandomVariableStream
  m_direction :: RandomVariableStream

text \<open>
  A \<^verbatim>\<open>Ptr<MobilityModel>\<close>: the address of the object, the result of the
  \<^verbatim>\<open>DynamicCast<SionnaMobilityModel>\<close> and the id of the node that
  \<^verbatim>\<open>GetObject<Node>\<close> finds. The position the object holds (\<^verbatim>\<open>m_position\<close>) lives in
  a store indexed by the address, so that two pointers to one object share it.
\<close>

record MobilityModel =
  addr :: nat
  sionna :: "SionnaMobilityModel option"
  node :: "NodeId option"

type_synonym Cache = "CacheKey \<rightharpoonup> CacheEntry list"

text \<open>
  The state the accessors of \<^verbatim>\<open>SionnaPropagationCache\<close> read and write: the members of
  the cache object, the helper it points to (with its socket), and the positions of the
  mobility models. \<^verbatim>\<open>m_friisLossModel\<close> and \<^verbatim>\<open>m_constSpeedDelayModel\<close> are ns-3 library
  models; they enter as the functions \<^verbatim>\<open>CalcRxPower\<close> and \<^verbatim>\<open>GetDelay\<close> of the two
  positions. The hit and miss counters are doubles that only ever grow by one; they are
  natural numbers here.
\<close>

record SionnaPropagationCache =
  m_sionnaHelper :: "SionnaHelper option"
  m_caching :: bool
  m_cache :: Cache
  m_cache_hits :: nat
  m_cache_miss :: nat
  m_optimize :: bool
  m_friisLossModel :: "real \<Rightarrow> Vector \<Rightarrow> Vector \<Rightarrow> real"
  m_constSpeedDelayModel :: "Vector \<Rightarrow> Vector \<Rightarrow> Time"
  m_position :: "nat \<Rightarrow> Vector"

definition m_optimize_margin :: real where
  "m_optimize_margin = 0"

definition GetPosition :: "MobilityModel \<Rightarrow> SionnaPropagationCache \<Rightarrow> Vector" where
  "GetPosition a w = m_position w (addr a)"

definition SetPosition ::
  "MobilityModel \<Rightarrow> Vector \<Rightarrow> SionnaPropagationCache \<Rightarrow> SionnaPropagationCache" where
  "SetPosition a position w = w\<lparr>m_position := (m_position w)(addr a := position)\<rparr>"

definition SetCaching :: "bool \<Rightarrow> SionnaPropagationCache \<Rightarrow> SionnaPropagationCache" where
  "SetCaching caching w = w\<lparr>m_caching := caching\<rparr>"

definition SetOptimize :: "bool \<Rightarrow> SionnaPropagationCache \<Rightarrow> SionnaPropagationCache" where
  "SetOptimize optimize w = w\<lparr>m_optimize := optimize\<rparr>"

section \<open>SionnaPropagationCache::GetPropagationData\<close>

text \<open>The test both scans of a bucket apply to an entry.\<close>

definition fresh :: "Time \<Rightarrow> CacheEntry \<Rightarrow> bool" where
  "fresh current_time c_entry \<longleftrightarrow>
     m_end_time c_entry \<ge> current_time \<and> m_start_time c_entry \<le> current_time"

text \<open>The \<^verbatim>\<open>while\<close> loop that erases outdated entries from a bucket.\<close>

fun remove_outdated :: "Time \<Rightarrow> CacheEntry list \<Rightarrow> CacheEntry list" where
  "remove_outdated current_time [] = []"
| "remove_outdated current_time (e # es) =
     (if m_end_time e < current_time then remove_outdated current_time es
      else e # remove_outdated current_time es)"

text \<open>The \<^verbatim>\<open>for\<close> loop over a bucket, returning at the first fresh entry.\<close>

fun first_fresh :: "Time \<Rightarrow> CacheEntry list \<Rightarrow> CacheEntry option" where
  "first_fresh current_time [] = None"
| "first_fresh current_time (c_entry # es) =
     (if fresh current_time c_entry then Some c_entry else first_fresh current_time es)"

text \<open>The innermost loop of the fill-up: subcarrier \<open>i\<close> of one receiver record.\<close>

fun fill_cfr :: "RxNode \<Rightarrow> nat list \<Rightarrow> CacheEntry \<Rightarrow> error + CacheEntry" where
  "fill_cfr rx [] entry = Inr entry"
| "fill_cfr rx (i # is) entry =
     (if i < length (rx_frequencies rx) \<and> i < length (rx_csi_imag rx)
         \<and> i < length (rx_csi_real rx)
      then fill_cfr rx is
             (entry\<lparr>m_freq := m_freq entry @ [rx_frequencies rx ! i],
                    m_cfr := m_cfr entry @ [Complex (rx_csi_real rx ! i) (rx_csi_imag rx ! i)]\<rparr>)
      else Inl IndexOutOfRange)"

definition make_entry :: "Csi \<Rightarrow> RxNode \<Rightarrow> error + CacheEntry" where
  "make_entry csi rx =
     (let num_ofdm_subcarrier = length (rx_csi_imag rx);
          entry = CacheEntry (rx_delay rx) (rx_wb_loss rx) (start_time csi) (end_time csi)
                    (int num_ofdm_subcarrier) (tx_id (tx_node csi)) (rx_id rx)
                    (tx_position (tx_node csi)) (rx_position rx)
      in fill_cfr rx [0 ..< num_ofdm_subcarrier] entry)"

text \<open>\<^verbatim>\<open>push_back\<close> onto the bucket of a key, creating the bucket when the pair is new.\<close>

definition push_back :: "CacheKey \<Rightarrow> CacheEntry \<Rightarrow> Cache \<Rightarrow> Cache" where
  "push_back otherkey entry cache =
     (case cache otherkey of
        Some bucket \<Rightarrow> cache(otherkey \<mapsto> bucket @ [entry])
      | None \<Rightarrow> cache(otherkey \<mapsto> [entry]))"

text \<open>The loop over the receivers of one record, and the loop over the records.\<close>

fun fill_rx :: "Csi \<Rightarrow> RxNode list \<Rightarrow> Cache \<Rightarrow> error + Cache" where
  "fill_rx csi [] cache = Inr cache"
| "fill_rx csi (rx # rxs) cache =
     (case make_entry csi rx of
        Inl e \<Rightarrow> Inl e
      | Inr entry \<Rightarrow>
          fill_rx csi rxs (push_back (CacheKey (tx_id (tx_node csi)) (rx_id rx)) entry cache))"

fun fill_cache :: "Csi list \<Rightarrow> Cache \<Rightarrow> error + Cache" where
  "fill_cache [] cache = Inr cache"
| "fill_cache (csi # csis) cache =
     (case fill_rx csi (rx_nodes csi) cache of
        Inl e \<Rightarrow> Inl e
      | Inr cache' \<Rightarrow> fill_cache csis cache')"

text \<open>Sending a wrapper on the helper's socket appends it to what the socket has sent.\<close>

definition zmq_send :: "Wrapper \<Rightarrow> SionnaHelper \<Rightarrow> SionnaHelper" where
  "zmq_send wrapper h =
     h\<lparr>m_zmq_socket := (m_zmq_socket h)\<lparr>sent := sent (m_zmq_socket h) @ [wrapper]\<rparr>\<rparr>"

text \<open>
  The part of \<^verbatim>\<open>GetPropagationData\<close> from the cache-miss log line to its end: count the
  miss, send the request, receive and check the reply, fill the cache with every record
  of the response, and read the result from the cache (no outdated entry is erased here).
\<close>

definition request_and_fill ::
  "recv_result \<Rightarrow> Time \<Rightarrow> NodeId \<Rightarrow> NodeId \<Rightarrow> SionnaHelper \<Rightarrow> SionnaPropagationCache
     \<Rightarrow> error + (served \<times> SionnaPropagationCache)" where
  "request_and_fill zmq_reply current_time id_a id_b helper w =
     (let w1 = w\<lparr>m_cache_miss := m_cache_miss w + 1,
                 m_sionnaHelper :=
                   Some (zmq_send (channel_state_request id_a id_b current_time) helper)\<rparr>
      in case zmq_reply of
           NoReply \<Rightarrow>
             Inl (AssertFailed ''Failed to receive reply after propagation request message.'')
         | Reply reply_wrapper \<Rightarrow>
             (case reply_wrapper of
                channel_state_response csi_response \<Rightarrow>
                  (case fill_cache csi_response (m_cache w1) of
                     Inl e \<Rightarrow> Inl e
                   | Inr cache' \<Rightarrow>
                       (let w2 = w1\<lparr>m_cache := cache'\<rparr>;
                            key2 = CacheKey id_a id_b
                        in case cache' key2 of
                             Some bucket \<Rightarrow>
                               (case first_fresh current_time bucket of
                                  Some c_entry \<Rightarrow> Inr (Entry c_entry, w2)
                                | None \<Rightarrow> Inr (dummy_entry, w2))
                           | None \<Rightarrow> Inr (dummy_entry, w2)))
              | _ \<Rightarrow>
                  Inl (AssertFailed
                    ''Reply after channel state request is not a channel state response.'')))"

text \<open>
  \<^verbatim>\<open>GetPropagationData(a, b)\<close> at simulation time \<open>current_time\<close>. \<open>zmq_reply\<close> is what
  the socket delivers if a request is sent.
\<close>

definition GetPropagationData ::
  "recv_result \<Rightarrow> Time \<Rightarrow> MobilityModel \<Rightarrow> MobilityModel \<Rightarrow> SionnaPropagationCache
     \<Rightarrow> error + (served \<times> SionnaPropagationCache)" where
  "GetPropagationData zmq_reply current_time a b w =
     (case m_sionnaHelper w of
        None \<Rightarrow> Inl (AssertFailed ''SionnaPropagationCache must have reference to SionnaHelper.'')
      | Some helper \<Rightarrow>
          if sionna a = None \<or> sionna b = None
          then Inl (AssertFailed ''Not using SionnaMobilityModel.'')
          else
            (case (node a, node b) of
               (Some id_a, Some id_b) \<Rightarrow>
                 if m_caching w then
                   (let key = CacheKey id_a id_b
                    in case m_cache w key of
                         Some bucket \<Rightarrow>
                           (let bucket' = remove_outdated current_time bucket;
                                w' = w\<lparr>m_cache := (m_cache w)(key \<mapsto> bucket')\<rparr>
                            in case first_fresh current_time bucket' of
                                 Some c_entry \<Rightarrow>
                                   Inr (Entry c_entry, w'\<lparr>m_cache_hits := m_cache_hits w' + 1\<rparr>)
                               | None \<Rightarrow>
                                   request_and_fill zmq_reply current_time id_a id_b helper w')
                       | None \<Rightarrow> request_and_fill zmq_reply current_time id_a id_b helper w)
                 else request_and_fill zmq_reply current_time id_a id_b helper w
             | _ \<Rightarrow> Inl (AssertFailed ''Nodes not found.'')))"

section \<open>The accessors of SionnaPropagationCache\<close>

text \<open>Reading a member of what \<^verbatim>\<open>GetPropagationData\<close> returned.\<close>

fun served_delay :: "served \<Rightarrow> Time" where
  "served_delay (Entry ce) = m_delay ce"
| "served_delay dummy_entry = 0"

fun served_loss :: "served \<Rightarrow> real cxx_value" where
  "served_loss (Entry ce) = Value (m_loss ce)"
| "served_loss dummy_entry = Indeterminate"

fun served_freq :: "served \<Rightarrow> int list" where
  "served_freq (Entry ce) = m_freq ce"
| "served_freq dummy_entry = []"

fun served_cfr :: "served \<Rightarrow> complex list" where
  "served_cfr (Entry ce) = m_cfr ce"
| "served_cfr dummy_entry = []"

text \<open>
  The check that opens \<^verbatim>\<open>GetPropagationDelay\<close> and the three-argument
  \<^verbatim>\<open>GetPropagationLoss\<close>: with \<^verbatim>\<open>m_optimize\<close> set, the Friis model estimates the
  received power, and \<open>Some resultdBm\<close> says that ray tracing is skipped.
\<close>

definition skip_raytracing ::
  "real \<Rightarrow> MobilityModel \<Rightarrow> MobilityModel \<Rightarrow> SionnaPropagationCache \<Rightarrow> error + real option" where
  "skip_raytracing txPowerDbm a b w =
     (if m_optimize w then
        (let resultdBm = m_friisLossModel w txPowerDbm (GetPosition a w) (GetPosition b w)
         in case m_sionnaHelper w of
              None \<Rightarrow> Inl NullPointer
            | Some helper \<Rightarrow>
                if resultdBm + m_optimize_margin < GetNoiseFloor helper
                then Inr (Some resultdBm) else Inr None)
      else Inr None)"

definition MAX_TXPOWER_DBM :: real where
  "MAX_TXPOWER_DBM = 20.0"

definition GetPropagationDelay ::
  "recv_result \<Rightarrow> Time \<Rightarrow> MobilityModel \<Rightarrow> MobilityModel \<Rightarrow> SionnaPropagationCache
     \<Rightarrow> error + (Time \<times> SionnaPropagationCache)" where
  "GetPropagationDelay zmq_reply current_time a b w =
     (case skip_raytracing MAX_TXPOWER_DBM a b w of
        Inl e \<Rightarrow> Inl e
      | Inr (Some resultdBm) \<Rightarrow>
          (let const_delay = m_constSpeedDelayModel w (GetPosition a w) (GetPosition b w)
           in Inr (const_delay, w))
      | Inr None \<Rightarrow>
          (case GetPropagationData zmq_reply current_time a b w of
             Inl e \<Rightarrow> Inl e
           | Inr (ce, w') \<Rightarrow> Inr (served_delay ce, w')))"

text \<open>\<^verbatim>\<open>GetPropagationLoss(a, b, txPowerDbm)\<close>.\<close>

definition GetPropagationLoss_txPowerDbm ::
  "recv_result \<Rightarrow> Time \<Rightarrow> MobilityModel \<Rightarrow> MobilityModel \<Rightarrow> real \<Rightarrow> SionnaPropagationCache
     \<Rightarrow> error + (real cxx_value \<times> SionnaPropagationCache)" where
  "GetPropagationLoss_txPowerDbm zmq_reply current_time a b txPowerDbm w =
     (case skip_raytracing txPowerDbm a b w of
        Inl e \<Rightarrow> Inl e
      | Inr (Some resultdBm) \<Rightarrow>
          (let friis_loss = (-1) * (resultdBm - txPowerDbm)
           in Inr (Value friis_loss, w))
      | Inr None \<Rightarrow>
          (case GetPropagationData zmq_reply current_time a b w of
             Inl e \<Rightarrow> Inl e
           | Inr (served_entry, w') \<Rightarrow>
               (case served_entry of
                  Entry ce \<Rightarrow>
                    (case node a of
                       None \<Rightarrow> Inl NullPointer
                     | Some id_a \<Rightarrow>
                         if id_a = m_a ce
                         then Inr (Value (m_loss ce),
                                   SetPosition b (m_b_position ce)
                                     (SetPosition a (m_a_position ce) w'))
                         else Inr (Value (m_loss ce),
                                   SetPosition b (m_a_position ce)
                                     (SetPosition a (m_b_position ce) w')))
                | dummy_entry \<Rightarrow>
                    Inr (Indeterminate,
                         SetPosition b (Vector 0 0 0) (SetPosition a (Vector 0 0 0) w')))))"

text \<open>\<^verbatim>\<open>GetPropagationLoss(a, b)\<close>, \<^verbatim>\<open>GetPropagationFreq\<close> and \<^verbatim>\<open>GetPropagationCSI\<close>.\<close>

definition GetPropagationLoss ::
  "recv_result \<Rightarrow> Time \<Rightarrow> MobilityModel \<Rightarrow> MobilityModel \<Rightarrow> SionnaPropagationCache
     \<Rightarrow> error + (real cxx_value \<times> SionnaPropagationCache)" where
  "GetPropagationLoss zmq_reply current_time a b w =
     (case GetPropagationData zmq_reply current_time a b w of
        Inl e \<Rightarrow> Inl e
      | Inr (ce, w') \<Rightarrow> Inr (served_loss ce, w'))"

definition GetPropagationFreq ::
  "recv_result \<Rightarrow> Time \<Rightarrow> MobilityModel \<Rightarrow> MobilityModel \<Rightarrow> SionnaPropagationCache
     \<Rightarrow> error + (int list \<times> SionnaPropagationCache)" where
  "GetPropagationFreq zmq_reply current_time a b w =
     (case GetPropagationData zmq_reply current_time a b w of
        Inl e \<Rightarrow> Inl e
      | Inr (ce, w') \<Rightarrow> Inr (served_freq ce, w'))"

definition GetPropagationCSI ::
  "recv_result \<Rightarrow> Time \<Rightarrow> MobilityModel \<Rightarrow> MobilityModel \<Rightarrow> SionnaPropagationCache
     \<Rightarrow> error + (complex list \<times> SionnaPropagationCache)" where
  "GetPropagationCSI zmq_reply current_time a b w =
     (case GetPropagationData zmq_reply current_time a b w of
        Inl e \<Rightarrow> Inl e
      | Inr (ce, w') \<Rightarrow> Inr (served_cfr ce, w'))"

section \<open>SionnaHelper::Start and SionnaHelper::Destroy\<close>

definition GetModel :: "SionnaMobilityModel \<Rightarrow> string" where
  "GetModel m = (if m_model m = MODEL_RANDOM_WALK then ''Random Walk'' else ''Constant Position'')"

definition GetMode :: "SionnaMobilityModel \<Rightarrow> string" where
  "GetMode m = (if m_mode_walk m = MODE_TIME then ''Time'' else ''Distance'')"

fun RandomVariableStreamMessage :: "RandomVariableStream \<Rightarrow> error + RandomVariableStream_msg" where
  "RandomVariableStreamMessage (UniformRandomVariable mn mx) = Inr (Uniform mn mx)"
| "RandomVariableStreamMessage (ConstantRandomVariable v) = Inr (Constant v)"
| "RandomVariableStreamMessage (NormalRandomVariable mean var) = Inr (Normal mean var)"
| "RandomVariableStreamMessage (OtherRandomVariable name) =
     Inl (FatalError ''RandomVariableStream must be Uniform, Constant, or Normal.'')"

text \<open>
  The body of the loop over the global node container, for one node: its id and the
  mobility model aggregated to it, if any. \<^verbatim>\<open>GetModeWall\<close> is called by
  \<^verbatim>\<open>Start\<close> but not declared in \<^verbatim>\<open>sionna-mobility-model.h\<close>; it is a parameter.
\<close>

definition walk_value_of ::
  "(SionnaMobilityModel \<Rightarrow> bool) \<Rightarrow> SionnaMobilityModel \<Rightarrow> error + walk_value" where
  "walk_value_of GetModeWall m =
     (if GetMode m = ''Wall'' then Inr (wall_value (GetModeWall m))
      else if GetMode m = ''Time'' then
        (if m_modeTime m > 0 then Inr (time_value (m_modeTime m))
         else Inl (AssertFailed ''Time value must be greater than 0 seconds.''))
      else
        (if m_modeDistance m > 0 then Inr (distance_value (m_modeDistance m))
         else Inl (AssertFailed ''Distance value must be greater than 0 meters.'')))"

definition node_info ::
  "(SionnaMobilityModel \<Rightarrow> bool) \<Rightarrow> (nat \<Rightarrow> Vector) \<Rightarrow> NodeId \<times> MobilityModel option
     \<Rightarrow> error + NodeInfo option" where
  "node_info GetModeWall positions n =
     (case snd n of
        None \<Rightarrow> Inr None
      | Some mobilityModel \<Rightarrow>
          (case sionna mobilityModel of
             None \<Rightarrow> Inl (AssertFailed ''Not using SionnaMobilityModel.'')
           | Some m \<Rightarrow>
               (let position = positions (addr mobilityModel) in
                if GetModel m = ''Random Walk'' then
                  (case walk_value_of GetModeWall m of
                     Inl e \<Rightarrow> Inl e
                   | Inr v \<Rightarrow>
                       (case RandomVariableStreamMessage (m_speed m) of
                          Inl e \<Rightarrow> Inl e
                        | Inr speed \<Rightarrow>
                            (case RandomVariableStreamMessage (m_direction m) of
                               Inl e \<Rightarrow> Inl e
                             | Inr direction \<Rightarrow>
                                 Inr (Some \<lparr>node_id = fst n,
                                            node_model =
                                              random_walk_model position v speed direction\<rparr>))))
                else
                  Inr (Some \<lparr>node_id = fst n,
                             node_model = constant_position_model position\<rparr>))))"

fun add_nodes ::
  "(SionnaMobilityModel \<Rightarrow> bool) \<Rightarrow> (nat \<Rightarrow> Vector) \<Rightarrow> (NodeId \<times> MobilityModel option) list
     \<Rightarrow> error + NodeInfo list" where
  "add_nodes GetModeWall positions [] = Inr []"
| "add_nodes GetModeWall positions (n # ns) =
     (case node_info GetModeWall positions n of
        Inl e \<Rightarrow> Inl e
      | Inr info \<Rightarrow>
          (case add_nodes GetModeWall positions ns of
             Inl e \<Rightarrow> Inl e
           | Inr infos \<Rightarrow> Inr (case info of None \<Rightarrow> infos | Some i \<Rightarrow> i # infos)))"

text \<open>
  \<^verbatim>\<open>Start\<close>: \<open>rng_seed\<close> is \<^verbatim>\<open>RngSeedManager::GetSeed()\<close>, \<open>c\<close> the global node
  container, \<open>zmq_reply\<close> what the socket delivers after the send.
\<close>

definition Start ::
  "32 word \<Rightarrow> (SionnaMobilityModel \<Rightarrow> bool) \<Rightarrow> (nat \<Rightarrow> Vector)
     \<Rightarrow> (NodeId \<times> MobilityModel option) list \<Rightarrow> recv_result \<Rightarrow> SionnaHelper
     \<Rightarrow> error + SionnaHelper" where
  "Start rng_seed GetModeWall positions c zmq_reply h =
     (case add_nodes GetModeWall positions c of
        Inl e \<Rightarrow> Inl e
      | Inr infos \<Rightarrow>
          (let wrapper = sim_init_msg
                 \<lparr>scene_fname = m_environment h, seed = rng_seed, frequency = m_frequency h,
                  channel_bw = m_channel_bw h, fft_size = m_fft_size h,
                  min_coherence_time_ms = m_min_coherence_time_ms h,
                  time_evo_model = m_time_evo_model h,
                  subcarrier_spacing = m_subcarrier_spacing h,
                  mode = m_mode h, sub_mode = m_sub_mode h, nodes = infos\<rparr>;
               h1 = zmq_send wrapper h
           in case zmq_reply of
                NoReply \<Rightarrow>
                  Inl (AssertFailed
                    ''Failed to receive reply after simulation information message.'')
              | Reply reply_wrapper \<Rightarrow>
                  (case reply_wrapper of
                     sim_ack no_error error_msg \<Rightarrow>
                       if no_error then Inr h1
                       else Inl (AbortMsg
                              (''ns3sionna: connection ... FAILED with error: '' @ error_msg))
                   | _ \<Rightarrow> Inl (AbortMsg ''ns3sionna: connection ... FAILED''))))"

definition Destroy :: "recv_result \<Rightarrow> SionnaHelper \<Rightarrow> error + SionnaHelper" where
  "Destroy zmq_reply h =
     (let h1 = zmq_send sim_close_request h
      in case zmq_reply of
           NoReply \<Rightarrow>
             Inl (AssertFailed ''Failed to receive reply after close request message.'')
         | Reply reply_wrapper \<Rightarrow>
             (case reply_wrapper of
                sim_ack no_error error_msg \<Rightarrow>
                  Inr (h1\<lparr>m_zmq_socket := (m_zmq_socket h1)\<lparr>closed := True\<rparr>\<rparr>)
              | _ \<Rightarrow> Inl (AssertFailed ''Reply after close request is not an ack.'')))"

section \<open>Notions used to state the properties\<close>

text \<open>The entries stored for a key; a pair without a bucket has none.\<close>

definition bucket_of :: "Cache \<Rightarrow> CacheKey \<Rightarrow> CacheEntry list" where
  "bucket_of cache key = (case cache key of None \<Rightarrow> [] | Some bucket \<Rightarrow> bucket)"

text \<open>The entries that a response adds to the bucket of a key, in the order of the
  response.\<close>

fun inserted_rx :: "CacheKey \<Rightarrow> Csi \<Rightarrow> RxNode list \<Rightarrow> CacheEntry list" where
  "inserted_rx key csi [] = []"
| "inserted_rx key csi (rx # rxs) =
     (case make_entry csi rx of
        Inl e \<Rightarrow> []
      | Inr entry \<Rightarrow>
          if CacheKey (tx_id (tx_node csi)) (rx_id rx) = key
          then entry # inserted_rx key csi rxs else inserted_rx key csi rxs)"

fun inserted :: "CacheKey \<Rightarrow> Csi list \<Rightarrow> CacheEntry list" where
  "inserted key [] = []"
| "inserted key (csi # csis) = inserted_rx key csi (rx_nodes csi) @ inserted key csis"

text \<open>A receiver record whose three subcarrier lists cover the length of \<^verbatim>\<open>csi_imag\<close>,
  the one the fill-up loop runs over.\<close>

definition well_formed_rx :: "RxNode \<Rightarrow> bool" where
  "well_formed_rx rx \<longleftrightarrow>
     length (rx_csi_imag rx) \<le> length (rx_frequencies rx)
     \<and> length (rx_csi_imag rx) \<le> length (rx_csi_real rx)"

definition well_formed :: "Csi list \<Rightarrow> bool" where
  "well_formed csis = list_all (\<lambda>csi. list_all well_formed_rx (rx_nodes csi)) csis"

text \<open>What the helper's socket has sent so far.\<close>

definition requests_sent :: "SionnaPropagationCache \<Rightarrow> Wrapper list" where
  "requests_sent w =
     (case m_sionnaHelper w of None \<Rightarrow> [] | Some h \<Rightarrow> sent (m_zmq_socket h))"

text \<open>The bucket of a key after the loop that erases its outdated entries; a pair
  without a bucket is left alone.\<close>

definition erase_outdated :: "Time \<Rightarrow> CacheKey \<Rightarrow> SionnaPropagationCache \<Rightarrow> SionnaPropagationCache" where
  "erase_outdated current_time key w =
     (case m_cache w key of
        None \<Rightarrow> w
      | Some bucket \<Rightarrow> w\<lparr>m_cache := (m_cache w)(key \<mapsto> remove_outdated current_time bucket)\<rparr>)"

text \<open>What the scan of a bucket returns at the end of \<^verbatim>\<open>GetPropagationData\<close>.\<close>

definition serve :: "Time \<Rightarrow> CacheEntry list \<Rightarrow> served" where
  "serve current_time bucket =
     (case first_fresh current_time bucket of Some c_entry \<Rightarrow> Entry c_entry | None \<Rightarrow> dummy_entry)"

section \<open>A scenario with three stations\<close>

text \<open>
  Stations 0, 1 and 2 with constant positions, a helper with a noise floor of -97 dBm, a
  Friis stand-in with a pathloss of 120 dB and a constant delay of 33 ns, and a look-ahead
  response of the server for transmitter 0 with two windows.
\<close>

definition constant_position :: SionnaMobilityModel where
  "constant_position =
     \<lparr>m_model = MODEL_CONSTANT_POSITION, m_mode_walk = MODE_DISTANCE, m_modeDistance = 1,
      m_modeTime = 1000000000, m_speed = UniformRandomVariable 2 4,
      m_direction = UniformRandomVariable 0 6\<rparr>"

definition station :: "NodeId \<Rightarrow> MobilityModel" where
  "station n = \<lparr>addr = unat n, sionna = Some constant_position, node = Some n\<rparr>"

definition wifi_helper :: SionnaHelper where
  "wifi_helper =
     \<lparr>m_environment = ''simple_room/simple_room.xml'', m_mode = 3, m_sub_mode = 1,
      m_frequency = 5210, m_channel_bw = 240, m_min_coherence_time_ms = 100000,
      m_fft_size = 3072, m_subcarrier_spacing = 78125, m_time_evo_model = ''position'',
      m_noiseDbm = - 97, m_zmq_socket = \<lparr>sent = [], closed = False\<rparr>\<rparr>"

definition new_cache :: "bool \<Rightarrow> bool \<Rightarrow> SionnaPropagationCache" where
  "new_cache caching optimize =
     \<lparr>m_sionnaHelper = Some wifi_helper, m_caching = caching, m_cache = Map.empty,
      m_cache_hits = 0, m_cache_miss = 0, m_optimize = optimize,
      m_friisLossModel = (\<lambda>txPowerDbm pa pb. txPowerDbm - 120),
      m_constSpeedDelayModel = (\<lambda>pa pb. 33),
      m_position = (\<lambda>n. Vector (real n) 0 0)\<rparr>"

definition rx_record :: "NodeId \<Rightarrow> real \<Rightarrow> RxNode" where
  "rx_record i loss =
     \<lparr>rx_id = i, rx_position = Vector 10 0 0, rx_delay = 33, rx_wb_loss = loss,
      rx_frequencies = [5210], rx_csi_real = [1], rx_csi_imag = [0]\<rparr>"

definition window :: "int \<Rightarrow> int \<Rightarrow> Csi" where
  "window t0 t1 =
     \<lparr>start_time = t0, end_time = t1, tx_node = \<lparr>tx_id = 0, tx_position = Vector 5 0 0\<rparr>,
      rx_nodes = [rx_record 1 60, rx_record 2 70]\<rparr>"

definition lookahead :: "Csi list" where
  "lookahead = [window 0 100, window 101 200]"

definition stored :: "int \<Rightarrow> int \<Rightarrow> NodeId \<Rightarrow> real \<Rightarrow> CacheEntry" where
  "stored t0 t1 i loss =
     (CacheEntry 33 loss t0 t1 1 0 i (Vector 5 0 0) (Vector 10 0 0))
       \<lparr>m_freq := [5210], m_cfr := [Complex 1 0]\<rparr>"

definition warm_cache :: "bool \<Rightarrow> bool \<Rightarrow> SionnaPropagationCache" where
  "warm_cache caching optimize =
     (new_cache caching optimize)
       \<lparr>m_cache := [Key 0 1 \<mapsto> [stored 0 100 1 60, stored 101 200 1 60]]\<rparr>"

text \<open>
  The decision rule in the words of the specification, for a margin that the configuration
  supplies: the fallback is authoritative iff \<open>received_power + margin < noise_floor\<close>.
\<close>

definition spec_decision_rule :: "real \<Rightarrow> real \<Rightarrow> real \<Rightarrow> bool" where
  "spec_decision_rule margin received_power noise_floor \<longleftrightarrow>
     received_power + margin < noise_floor"

text \<open>The empty cache after the look-ahead response has answered a query for stations 0
  and 1 at time 50.\<close>

definition filled_cache :: SionnaPropagationCache where
  "filled_cache =
     (new_cache True False)
       \<lparr>m_cache := [Key 0 1 \<mapsto> [stored 0 100 1 60, stored 101 200 1 60],
                    Key 0 2 \<mapsto> [stored 0 100 2 70, stored 101 200 2 70]],
        m_cache_miss := 1,
        m_sionnaHelper := Some (zmq_send (channel_state_request 0 1 50) wifi_helper)\<rparr>"

section \<open>Canonical keys\<close>

lemma CacheKey_commute: "CacheKey x y = CacheKey y x"
  by (auto simp: CacheKey_def not_less)

text \<open>Two keys that \<^verbatim>\<open>operator<\<close> does not separate are equal, so the \<^verbatim>\<open>std::map\<close> is a
  map on keys up to equality.\<close>

lemma CacheKey_equivalence:
  "\<not> CacheKey_less k other \<and> \<not> CacheKey_less other k \<longleftrightarrow> k = other"
  by (cases k; cases other) (auto simp: CacheKey_less_def)

section \<open>Filling and scanning buckets\<close>

lemma bucket_of_push_back:
  "bucket_of (push_back k e cache) k' =
     (if k' = k then bucket_of cache k @ [e] else bucket_of cache k')"
  by (simp add: bucket_of_def push_back_def split: option.splits)

lemma fill_cfr_ok:
  "\<forall>i \<in> set is. i < length (rx_frequencies rx) \<and> i < length (rx_csi_imag rx)
       \<and> i < length (rx_csi_real rx) \<Longrightarrow>
   fill_cfr rx is entry =
     Inr (entry\<lparr>m_freq := m_freq entry @ map (\<lambda>i. rx_frequencies rx ! i) is,
                m_cfr := m_cfr entry @ map (\<lambda>i. Complex (rx_csi_real rx ! i) (rx_csi_imag rx ! i)) is\<rparr>)"
  by (induction "is" arbitrary: entry) simp_all

lemma fill_cfr_frame:
  "fill_cfr rx is entry = Inr entry' \<Longrightarrow>
     m_delay entry' = m_delay entry \<and> m_loss entry' = m_loss entry
     \<and> m_start_time entry' = m_start_time entry \<and> m_end_time entry' = m_end_time entry
     \<and> m_a entry' = m_a entry \<and> m_b entry' = m_b entry
     \<and> m_a_position entry' = m_a_position entry \<and> m_b_position entry' = m_b_position entry"
  by (induction "is" arbitrary: entry) (auto split: if_splits)

lemma make_entry_fields:
  "make_entry csi rx = Inr entry \<Longrightarrow>
     m_delay entry = rx_delay rx \<and> m_loss entry = rx_wb_loss rx
     \<and> m_start_time entry = start_time csi \<and> m_end_time entry = end_time csi
     \<and> m_a entry = tx_id (tx_node csi) \<and> m_b entry = rx_id rx
     \<and> m_a_position entry = tx_position (tx_node csi) \<and> m_b_position entry = rx_position rx"
  unfolding make_entry_def Let_def
  by (drule fill_cfr_frame) (simp add: CacheEntry_def)

lemma make_entry_well_formed:
  "well_formed_rx rx \<Longrightarrow> \<exists>entry. make_entry csi rx = Inr entry"
  unfolding make_entry_def Let_def well_formed_rx_def
  by (subst fill_cfr_ok) auto

lemma fill_rx_bucket:
  "fill_rx csi rxs cache = Inr cache' \<Longrightarrow>
     bucket_of cache' key = bucket_of cache key @ inserted_rx key csi rxs"
  by (induction rxs arbitrary: cache)
     (auto simp: bucket_of_push_back split: sum.splits)

lemma fill_cache_bucket:
  "fill_cache csis cache = Inr cache' \<Longrightarrow>
     bucket_of cache' key = bucket_of cache key @ inserted key csis"
  by (induction csis arbitrary: cache)
     (auto simp: fill_rx_bucket split: sum.splits)

lemma fill_rx_made:
  "fill_rx csi rxs cache = Inr cache' \<Longrightarrow> rx \<in> set rxs \<Longrightarrow>
     \<exists>entry. make_entry csi rx = Inr entry
       \<and> entry \<in> set (inserted_rx (CacheKey (tx_id (tx_node csi)) (rx_id rx)) csi rxs)"
proof (induction rxs arbitrary: cache)
  case Nil
  then show ?case by simp
next
  case (Cons r rxs)
  from Cons.prems(1) obtain e where e: "make_entry csi r = Inr e"
    and rest: "fill_rx csi rxs (push_back (CacheKey (tx_id (tx_node csi)) (rx_id r)) e cache)
                 = Inr cache'"
    by (auto split: sum.splits)
  show ?case
  proof (cases "rx = r")
    case True
    with e show ?thesis by simp
  next
    case False
    with Cons.prems(2) have "rx \<in> set rxs" by simp
    from Cons.IH [OF rest this] obtain entry where "make_entry csi rx = Inr entry"
      and "entry \<in> set (inserted_rx (CacheKey (tx_id (tx_node csi)) (rx_id rx)) csi rxs)"
      by blast
    with e show ?thesis by simp
  qed
qed

lemma fill_cache_made:
  "fill_cache csis cache = Inr cache' \<Longrightarrow> csi \<in> set csis \<Longrightarrow> rx \<in> set (rx_nodes csi) \<Longrightarrow>
     \<exists>entry. make_entry csi rx = Inr entry
       \<and> entry \<in> set (inserted (CacheKey (tx_id (tx_node csi)) (rx_id rx)) csis)"
proof (induction csis arbitrary: cache)
  case Nil
  then show ?case by simp
next
  case (Cons c csis)
  from Cons.prems(1) obtain c1 where c1: "fill_rx c (rx_nodes c) cache = Inr c1"
    and rest: "fill_cache csis c1 = Inr cache'"
    by (auto split: sum.splits)
  show ?case
  proof (cases "csi = c")
    case True
    with fill_rx_made [OF c1] Cons.prems(3) show ?thesis by auto
  next
    case False
    with Cons.prems(2) have "csi \<in> set csis" by simp
    from Cons.IH [OF rest this Cons.prems(3)] show ?thesis by auto
  qed
qed

lemma fill_rx_well_formed:
  "list_all well_formed_rx rxs \<Longrightarrow> \<exists>cache'. fill_rx csi rxs cache = Inr cache'"
proof (induction rxs arbitrary: cache)
  case Nil
  show ?case by simp
next
  case (Cons rx rxs)
  from Cons.prems obtain entry where "make_entry csi rx = Inr entry"
    using make_entry_well_formed by auto
  with Cons show ?case by simp
qed

lemma fill_cache_well_formed:
  "well_formed csis \<Longrightarrow> \<exists>cache'. fill_cache csis cache = Inr cache'"
proof (induction csis arbitrary: cache)
  case Nil
  show ?case by simp
next
  case (Cons csi csis)
  from Cons.prems obtain c1 where "fill_rx csi (rx_nodes csi) cache = Inr c1"
    using fill_rx_well_formed [of "rx_nodes csi" csi cache] by (auto simp: well_formed_def)
  with Cons show ?case by (simp add: well_formed_def)
qed

lemma remove_outdated_filter:
  "remove_outdated t es = filter (\<lambda>e. \<not> m_end_time e < t) es"
  by (induction es) simp_all

lemma first_fresh_Some:
  "first_fresh t es = Some c \<Longrightarrow> c \<in> set es \<and> fresh t c"
  by (induction es) (auto split: if_splits)

lemma first_fresh_None: "first_fresh t es = None \<longleftrightarrow> (\<forall>e \<in> set es. \<not> fresh t e)"
  by (induction es) auto

lemma first_fresh_remove_outdated:
  "first_fresh t (remove_outdated t es) = first_fresh t es"
  by (induction es) (auto simp: fresh_def)

lemma first_fresh_append:
  "first_fresh t (xs @ ys) =
     (case first_fresh t xs of Some c \<Rightarrow> Some c | None \<Rightarrow> first_fresh t ys)"
  by (induction xs) auto

lemma bucket_of_erase_outdated:
  "bucket_of (m_cache (erase_outdated t k w)) k' =
     (if k' = k then remove_outdated t (bucket_of (m_cache w) k) else bucket_of (m_cache w) k')"
  by (simp add: erase_outdated_def bucket_of_def split: option.splits)

lemma erase_outdated_frame:
  "m_sionnaHelper (erase_outdated t k w) = m_sionnaHelper w"
  "m_cache_miss (erase_outdated t k w) = m_cache_miss w"
  "m_cache_hits (erase_outdated t k w) = m_cache_hits w"
  "m_position (erase_outdated t k w) = m_position w"
  "m_caching (erase_outdated t k w) = m_caching w"
  by (simp_all add: erase_outdated_def split: option.splits)

lemma GetPropagationData_hit:
  assumes "m_sionnaHelper w = Some h" and "sionna a \<noteq> None" and "sionna b \<noteq> None"
    and "node a = Some x" and "node b = Some y" and "m_caching w"
    and "first_fresh t (bucket_of (m_cache w) (CacheKey x y)) = Some c"
  shows "GetPropagationData r t a b w =
           Inr (Entry c, (erase_outdated t (CacheKey x y) w)
                           \<lparr>m_cache_hits := m_cache_hits w + 1\<rparr>)"
  using assms
  by (auto simp: GetPropagationData_def erase_outdated_def bucket_of_def
        first_fresh_remove_outdated split: option.splits)

lemma GetPropagationData_miss:
  assumes "m_sionnaHelper w = Some h" and "sionna a \<noteq> None" and "sionna b \<noteq> None"
    and "node a = Some x" and "node b = Some y" and "m_caching w"
    and "first_fresh t (bucket_of (m_cache w) (CacheKey x y)) = None"
  shows "GetPropagationData r t a b w =
           request_and_fill r t x y h (erase_outdated t (CacheKey x y) w)"
  using assms
  by (auto simp: GetPropagationData_def erase_outdated_def bucket_of_def
        first_fresh_remove_outdated split: option.splits)

lemma GetPropagationData_uncached:
  assumes "m_sionnaHelper w = Some h" and "sionna a \<noteq> None" and "sionna b \<noteq> None"
    and "node a = Some x" and "node b = Some y" and "\<not> m_caching w"
  shows "GetPropagationData r t a b w = request_and_fill r t x y h w"
  using assms by (auto simp: GetPropagationData_def split: option.splits)

lemma request_and_fill_response:
  assumes "fill_cache csis (m_cache w) = Inr cache'"
  shows "request_and_fill (Reply (channel_state_response csis)) t x y h w =
           Inr (serve t (bucket_of cache' (CacheKey x y)),
                w\<lparr>m_cache_miss := m_cache_miss w + 1,
                  m_sionnaHelper := Some (zmq_send (channel_state_request x y t) h),
                  m_cache := cache'\<rparr>)"
  using assms
  by (simp add: request_and_fill_def serve_def bucket_of_def split: option.splits)

lemma request_and_fill_Inr:
  assumes "request_and_fill r t x y h w = Inr (s, w')"
  shows "\<exists>csis. r = Reply (channel_state_response csis)
           \<and> fill_cache csis (m_cache w) = Inr (m_cache w')
           \<and> s = serve t (bucket_of (m_cache w') (CacheKey x y))
           \<and> w' = w\<lparr>m_cache_miss := m_cache_miss w + 1,
                     m_sionnaHelper := Some (zmq_send (channel_state_request x y t) h),
                     m_cache := m_cache w'\<rparr>"
proof (cases r)
  case NoReply
  with assms show ?thesis by (simp add: request_and_fill_def)
next
  case (Reply wr)
  show ?thesis
  proof (cases wr)
    case (channel_state_response csis)
    with Reply assms obtain cache' where f: "fill_cache csis (m_cache w) = Inr cache'"
      by (auto simp: request_and_fill_def split: sum.splits)
    from request_and_fill_response [OF f, of t x y h] assms Reply channel_state_response f
    show ?thesis by auto
  qed (use Reply assms in \<open>simp_all add: request_and_fill_def\<close>)
qed

lemma GetPropagationData_served_fresh:
  assumes "GetPropagationData r t a b w = Inr (Entry c, w')"
  shows "fresh t c"
proof -
  from assms obtain h x y where cfg: "m_sionnaHelper w = Some h" "sionna a \<noteq> None"
    "sionna b \<noteq> None" "node a = Some x" "node b = Some y"
    by (auto simp: GetPropagationData_def split: option.splits if_splits)
  let ?k = "CacheKey x y"
  have rf: "fresh t c" if "request_and_fill r t x y h v = Inr (Entry c, w')" for v
  proof -
    from request_and_fill_Inr [OF that]
    have "Entry c = serve t (bucket_of (m_cache w') ?k)" by blast
    then have "first_fresh t (bucket_of (m_cache w') ?k) = Some c"
      by (simp add: serve_def split: option.splits)
    then show ?thesis by (simp add: first_fresh_Some)
  qed
  show ?thesis
  proof (cases "m_caching w")
    case False
    with cfg assms rf show ?thesis by (simp add: GetPropagationData_uncached)
  next
    case True
    show ?thesis
    proof (cases "first_fresh t (bucket_of (m_cache w) ?k)")
      case None
      from GetPropagationData_miss [OF cfg True None] assms rf show ?thesis by simp
    next
      case (Some c')
      from GetPropagationData_hit [OF cfg True Some] assms have "c' = c" by simp
      with Some show ?thesis by (simp add: first_fresh_Some)
    qed
  qed
qed

lemma first_fresh_exists:
  "e \<in> set es \<Longrightarrow> fresh t e \<Longrightarrow> \<exists>c. first_fresh t es = Some c"
  using first_fresh_None [of t es] by (cases "first_fresh t es") auto

lemma requests_sent_request_and_fill:
  assumes "request_and_fill r t x y h w = Inr (s, w')"
  shows "requests_sent w' = sent (m_zmq_socket h) @ [channel_state_request x y t]"
    and "m_cache_miss w' = m_cache_miss w + 1"
    and "m_cache_hits w' = m_cache_hits w"
    and "m_position w' = m_position w"
    and "m_caching w' = m_caching w"
proof -
  from request_and_fill_Inr [OF assms] obtain csis where
    w': "w' = w\<lparr>m_cache_miss := m_cache_miss w + 1,
                 m_sionnaHelper := Some (zmq_send (channel_state_request x y t) h),
                 m_cache := m_cache w'\<rparr>" by blast
  show "requests_sent w' = sent (m_zmq_socket h) @ [channel_state_request x y t]"
    by (subst w') (simp add: requests_sent_def zmq_send_def)
  show "m_cache_miss w' = m_cache_miss w + 1" by (subst w') simp
  show "m_cache_hits w' = m_cache_hits w" by (subst w') simp
  show "m_position w' = m_position w" by (subst w') simp
  show "m_caching w' = m_caching w" by (subst w') simp
qed

lemma request_and_fill_total:
  assumes "well_formed csis"
  shows "\<exists>s w'. request_and_fill (Reply (channel_state_response csis)) t x y h w = Inr (s, w')"
proof -
  from fill_cache_well_formed [OF assms] obtain cache'
    where "fill_cache csis (m_cache w) = Inr cache'" by blast
  from request_and_fill_response [OF this] show ?thesis by blast
qed

lemma GetPropagationData_first_fresh:
  assumes cfg: "m_sionnaHelper w = Some h" "sionna a \<noteq> None" "sionna b \<noteq> None"
    "node a = Some x" "node b = Some y"
    and c: "first_fresh t (bucket_of (m_cache w) (CacheKey x y)) = Some c"
    and res: "GetPropagationData r t a b w = Inr (s, w')"
  shows "s = Entry c"
proof (cases "m_caching w")
  case True
  from GetPropagationData_hit [OF cfg True c] res show ?thesis by simp
next
  case False
  from GetPropagationData_uncached [OF cfg False] res
  have "request_and_fill r t x y h w = Inr (s, w')" by simp
  from request_and_fill_Inr [OF this] obtain csis
    where f: "fill_cache csis (m_cache w) = Inr (m_cache w')"
      and s: "s = serve t (bucket_of (m_cache w') (CacheKey x y))" by blast
  from fill_cache_bucket [OF f] c have
    "first_fresh t (bucket_of (m_cache w') (CacheKey x y)) = Some c"
    by (simp add: first_fresh_append)
  with s show ?thesis by (simp add: serve_def)
qed

section \<open>The scenario evaluated\<close>

lemma fun_upd_shadow: "(m(a := u, b := v))(a := u') = (m(b := v))(a := u')"
  by (rule ext) simp

lemma new_simps [simp]:
  "m_sionnaHelper (new_cache c opt) = Some wifi_helper"
  "m_caching (new_cache c opt) = c"
  "m_optimize (new_cache c opt) = opt"
  "m_cache_hits (new_cache c opt) = 0"
  "m_cache_miss (new_cache c opt) = 0"
  "m_cache (new_cache c opt) = Map.empty"
  "m_position (new_cache c opt) = (\<lambda>n. Vector (real n) 0 0)"
  "m_friisLossModel (new_cache c opt) = (\<lambda>txPowerDbm pa pb. txPowerDbm - 120)"
  "m_constSpeedDelayModel (new_cache c opt) = (\<lambda>pa pb. 33)"
  by (simp_all add: new_cache_def)

lemma station_simps [simp]:
  "addr (station n) = unat n" "sionna (station n) = Some constant_position"
  "node (station n) = Some n"
  by (simp_all add: station_def)

lemma warm_simps [simp]:
  "m_sionnaHelper (warm_cache c opt) = Some wifi_helper"
  "m_caching (warm_cache c opt) = c"
  "m_optimize (warm_cache c opt) = opt"
  "m_cache_hits (warm_cache c opt) = 0"
  "m_cache_miss (warm_cache c opt) = 0"
  "m_cache (warm_cache c opt) = [Key 0 1 \<mapsto> [stored 0 100 1 60, stored 101 200 1 60]]"
  by (simp_all add: warm_cache_def new_cache_def)

lemma stored_simps [simp]:
  "m_start_time (stored t0 t1 i l) = t0" "m_end_time (stored t0 t1 i l) = t1"
  "m_loss (stored t0 t1 i l) = l" "m_delay (stored t0 t1 i l) = 33"
  "m_a (stored t0 t1 i l) = 0" "m_b (stored t0 t1 i l) = i"
  "m_a_position (stored t0 t1 i l) = Vector 5 0 0"
  "m_b_position (stored t0 t1 i l) = Vector 10 0 0"
  by (simp_all add: stored_def CacheEntry_def)

lemma window_simps [simp]:
  "rx_nodes (window t0 t1) = [rx_record 1 60, rx_record 2 70]"
  "tx_id (tx_node (window t0 t1)) = 0" "rx_id (rx_record i loss) = i"
  "start_time (window t0 t1) = t0" "end_time (window t0 t1) = t1"
  by (simp_all add: window_def rx_record_def)

lemma make_entry_rx_record [simp]:
  "make_entry (window t0 t1) (rx_record i loss) = Inr (stored t0 t1 i loss)"
  by (simp add: make_entry_def window_def rx_record_def stored_def CacheEntry_def)

lemma keys [simp]:
  "CacheKey 0 1 = Key 0 1" "CacheKey 1 0 = Key 0 1" "CacheKey 0 2 = Key 0 2" "CacheKey 2 0 = Key 0 2"
  by (simp_all add: CacheKey_def)

section \<open>Properties of the cache\<close>

text \<open>
  C2. With caching enabled, an entry that is served lies in its window,
  \<open>m_start_time \<le> now \<le> m_end_time\<close>; the loop that erases outdated entries leaves in
  the bucket of the queried key exactly the entries whose end time is not before \<open>now\<close>,
  and it has run when the bucket is scanned for a hit; if the bucket holds an entry whose
  window contains \<open>now\<close>, such an entry is returned as a hit, with no request sent; if it
  holds none, the query continues with the request to the server: the miss counter grows
  by one, one channel-state request is sent, and a well-formed response makes the call
  return.
\<close>

theorem lookup_serves_within_window:
  assumes "m_sionnaHelper w = Some h" and "sionna a \<noteq> None" and "sionna b \<noteq> None"
    and "node a = Some x" and "node b = Some y" and "m_caching w"
  shows "(\<forall>c w'. GetPropagationData r now a b w = Inr (Entry c, w') \<longrightarrow>
            m_start_time c \<le> now \<and> now \<le> m_end_time c)
       \<and> set (bucket_of (m_cache (erase_outdated now (CacheKey x y) w)) (CacheKey x y)) =
            {e \<in> set (bucket_of (m_cache w) (CacheKey x y)). \<not> m_end_time e < now}
       \<and> ((\<exists>e \<in> set (bucket_of (m_cache w) (CacheKey x y)).
              m_start_time e \<le> now \<and> now \<le> m_end_time e) \<longrightarrow>
            (\<exists>c \<in> set (bucket_of (m_cache w) (CacheKey x y)).
               m_start_time c \<le> now \<and> now \<le> m_end_time c
               \<and> GetPropagationData r now a b w =
                   Inr (Entry c, (erase_outdated now (CacheKey x y) w)
                                   \<lparr>m_cache_hits := m_cache_hits w + 1\<rparr>)))
       \<and> (\<not> (\<exists>e \<in> set (bucket_of (m_cache w) (CacheKey x y)).
                m_start_time e \<le> now \<and> now \<le> m_end_time e) \<longrightarrow>
            GetPropagationData r now a b w =
              request_and_fill r now x y h (erase_outdated now (CacheKey x y) w)
            \<and> (\<forall>s w'. GetPropagationData r now a b w = Inr (s, w') \<longrightarrow>
                  requests_sent w' = requests_sent w @ [channel_state_request x y now]
                  \<and> m_cache_miss w' = m_cache_miss w + 1)
            \<and> (\<forall>csis. r = Reply (channel_state_response csis) \<and> well_formed csis \<longrightarrow>
                  (\<exists>s w'. GetPropagationData r now a b w = Inr (s, w'))))"
proof (intro conjI allI impI)
  fix c w'
  assume "GetPropagationData r now a b w = Inr (Entry c, w')"
  from GetPropagationData_served_fresh [OF this]
  show "m_start_time c \<le> now" and "now \<le> m_end_time c" by (simp_all add: fresh_def)
next
  show "set (bucket_of (m_cache (erase_outdated now (CacheKey x y) w)) (CacheKey x y)) =
          {e \<in> set (bucket_of (m_cache w) (CacheKey x y)). \<not> m_end_time e < now}"
    by (simp add: bucket_of_erase_outdated remove_outdated_filter)
next
  assume "\<exists>e \<in> set (bucket_of (m_cache w) (CacheKey x y)).
            m_start_time e \<le> now \<and> now \<le> m_end_time e"
  then obtain e where "e \<in> set (bucket_of (m_cache w) (CacheKey x y))" and "fresh now e"
    by (auto simp: fresh_def)
  from first_fresh_exists [OF this] obtain c
    where c: "first_fresh now (bucket_of (m_cache w) (CacheKey x y)) = Some c" ..
  from first_fresh_Some [OF c] GetPropagationData_hit [OF assms c, of r]
  show "\<exists>c \<in> set (bucket_of (m_cache w) (CacheKey x y)).
           m_start_time c \<le> now \<and> now \<le> m_end_time c
           \<and> GetPropagationData r now a b w =
               Inr (Entry c, (erase_outdated now (CacheKey x y) w)
                               \<lparr>m_cache_hits := m_cache_hits w + 1\<rparr>)"
    by (auto simp: fresh_def)
next
  assume none: "\<not> (\<exists>e \<in> set (bucket_of (m_cache w) (CacheKey x y)).
            m_start_time e \<le> now \<and> now \<le> m_end_time e)"
  then have n: "first_fresh now (bucket_of (m_cache w) (CacheKey x y)) = None"
    by (auto simp: first_fresh_None fresh_def)
  from GetPropagationData_miss [OF assms n]
  show eq: "GetPropagationData r now a b w =
          request_and_fill r now x y h (erase_outdated now (CacheKey x y) w)" .
  fix s w'
  assume "GetPropagationData r now a b w = Inr (s, w')"
  with eq have "request_and_fill r now x y h (erase_outdated now (CacheKey x y) w) = Inr (s, w')"
    by simp
  from requests_sent_request_and_fill(1,2) [OF this] assms(1)
  show "requests_sent w' = requests_sent w @ [channel_state_request x y now]"
    and "m_cache_miss w' = m_cache_miss w + 1"
    by (simp_all add: requests_sent_def erase_outdated_frame)
next
  fix csis
  assume none: "\<not> (\<exists>e \<in> set (bucket_of (m_cache w) (CacheKey x y)).
            m_start_time e \<le> now \<and> now \<le> m_end_time e)"
    and r: "r = Reply (channel_state_response csis) \<and> well_formed csis"
  from none have n: "first_fresh now (bucket_of (m_cache w) (CacheKey x y)) = None"
    by (auto simp: first_fresh_None fresh_def)
  from GetPropagationData_miss [OF assms n, of r] r request_and_fill_total
  show "\<exists>s w'. GetPropagationData r now a b w = Inr (s, w')"
    by simp
qed

theorem lookup_serves_within_window_witness:
  "GetPropagationData NoReply 150 (station 0) (station 1) (warm_cache True False) =
     Inr (Entry (stored 101 200 1 60),
          (warm_cache True False)
            \<lparr>m_cache := [Key 0 1 \<mapsto> [stored 101 200 1 60]], m_cache_hits := 1\<rparr>)
   \<and> GetPropagationData (Reply (channel_state_response [window 201 300])) 250
       (station 0) (station 1) (warm_cache True False) =
     Inr (Entry (stored 201 300 1 60),
          (warm_cache True False)
            \<lparr>m_cache := [Key 0 1 \<mapsto> [stored 201 300 1 60],
                          Key 0 2 \<mapsto> [stored 201 300 2 70]],
             m_cache_miss := 1,
             m_sionnaHelper :=
               Some (zmq_send (channel_state_request 0 1 250) wifi_helper)\<rparr>)"
proof -
  have cfg: "m_sionnaHelper (warm_cache True False) = Some wifi_helper"
    "sionna (station 0) \<noteq> None" "sionna (station 1) \<noteq> None"
    "node (station 0) = Some 0" "node (station 1) = Some 1"
    "m_caching (warm_cache True False)"
    by simp_all
  note hit = lookup_serves_within_window [OF cfg, where now = 150 and r = NoReply]
  note miss = lookup_serves_within_window [OF cfg, where now = 250
      and r = "Reply (channel_state_response [window 201 300])"]
  have "GetPropagationData NoReply 150 (station 0) (station 1) (warm_cache True False) =
     Inr (Entry (stored 101 200 1 60),
          (warm_cache True False)
            \<lparr>m_cache := [Key 0 1 \<mapsto> [stored 101 200 1 60]], m_cache_hits := 1\<rparr>)"
    by (simp add: GetPropagationData_def fresh_def warm_cache_def new_cache_def)
  moreover
  have "GetPropagationData (Reply (channel_state_response [window 201 300])) 250
       (station 0) (station 1) (warm_cache True False) =
     Inr (Entry (stored 201 300 1 60),
          (warm_cache True False)
            \<lparr>m_cache := [Key 0 1 \<mapsto> [stored 201 300 1 60],
                          Key 0 2 \<mapsto> [stored 201 300 2 70]],
             m_cache_miss := 1,
             m_sionnaHelper :=
               Some (zmq_send (channel_state_request 0 1 250) wifi_helper)\<rparr>)"
    by (simp add: GetPropagationData_def request_and_fill_def fresh_def push_back_def
          Let_def warm_cache_def new_cache_def)
  ultimately show ?thesis
    using hit [THEN conjunct1] miss [THEN conjunct1] by simp
qed

text \<open>
  C3. The key built from \<open>(x, y)\<close> is the key built from \<open>(y, x)\<close>, with the smaller id
  first, so an insertion under one orientation lands in the bucket that a lookup under
  the other orientation reads. While an entry whose window contains \<open>now\<close> is stored
  for the pair, a query in either orientation that returns is answered by the same entry
  (the first such entry of the bucket), hence with the same delay and loss; with caching
  enabled both queries are hits.
\<close>

theorem canonical_key_shared_bucket:
  assumes "x \<noteq> y"
    and "m_sionnaHelper w = Some h" and "sionna a \<noteq> None" and "sionna b \<noteq> None"
    and "node a = Some x" and "node b = Some y"
    and "e \<in> set (bucket_of (m_cache w) (CacheKey x y))"
    and "m_start_time e \<le> now" and "now \<le> m_end_time e"
  shows "CacheKey x y = CacheKey y x \<and> CacheKey x y = Key (min x y) (max x y)
       \<and> bucket_of (push_back (CacheKey y x) entry cache) (CacheKey x y) =
           bucket_of cache (CacheKey x y) @ [entry]
       \<and> (\<exists>c \<in> set (bucket_of (m_cache w) (CacheKey x y)).
            m_start_time c \<le> now \<and> now \<le> m_end_time c
            \<and> (\<forall>s w'. GetPropagationData r1 now a b w = Inr (s, w') \<longrightarrow> s = Entry c)
            \<and> (\<forall>s w'. GetPropagationData r2 now b a w = Inr (s, w') \<longrightarrow> s = Entry c)
            \<and> (\<forall>v w'. GetPropagationLoss r1 now a b w = Inr (v, w') \<longrightarrow> v = Value (m_loss c))
            \<and> (\<forall>v w'. GetPropagationLoss r2 now b a w = Inr (v, w') \<longrightarrow> v = Value (m_loss c))
            \<and> (\<forall>d w'. skip_raytracing MAX_TXPOWER_DBM a b w = Inr None \<longrightarrow>
                  GetPropagationDelay r1 now a b w = Inr (d, w') \<longrightarrow> d = m_delay c)
            \<and> (\<forall>d w'. skip_raytracing MAX_TXPOWER_DBM b a w = Inr None \<longrightarrow>
                  GetPropagationDelay r2 now b a w = Inr (d, w') \<longrightarrow> d = m_delay c)
            \<and> (\<forall>v w'. skip_raytracing txPowerDbm a b w = Inr None \<longrightarrow>
                  GetPropagationLoss_txPowerDbm r1 now a b txPowerDbm w = Inr (v, w') \<longrightarrow>
                  v = Value (m_loss c))
            \<and> (\<forall>v w'. skip_raytracing txPowerDbm b a w = Inr None \<longrightarrow>
                  GetPropagationLoss_txPowerDbm r2 now b a txPowerDbm w = Inr (v, w') \<longrightarrow>
                  v = Value (m_loss c))
            \<and> (m_caching w \<longrightarrow>
                  GetPropagationData r1 now a b w =
                    Inr (Entry c, (erase_outdated now (CacheKey x y) w)
                                    \<lparr>m_cache_hits := m_cache_hits w + 1\<rparr>)
                  \<and> GetPropagationData r2 now b a w =
                    Inr (Entry c, (erase_outdated now (CacheKey x y) w)
                                    \<lparr>m_cache_hits := m_cache_hits w + 1\<rparr>)))"
proof -
  let ?k = "CacheKey x y"
  have k: "CacheKey y x = ?k" by (rule CacheKey_commute)
  have cfg: "m_sionnaHelper w = Some h" "sionna a \<noteq> None" "sionna b \<noteq> None"
    "node a = Some x" "node b = Some y" by fact+
  have cfg': "m_sionnaHelper w = Some h" "sionna b \<noteq> None" "sionna a \<noteq> None"
    "node b = Some y" "node a = Some x" by fact+
  from assms(7-9) have "fresh now e" by (simp add: fresh_def)
  from first_fresh_exists [OF assms(7) this] obtain c
    where c: "first_fresh now (bucket_of (m_cache w) ?k) = Some c" ..
  then have c': "first_fresh now (bucket_of (m_cache w) (CacheKey y x)) = Some c"
    by (simp add: k)
  note ab = GetPropagationData_first_fresh [OF cfg c]
  note ba = GetPropagationData_first_fresh [OF cfg' c']
  have f1: "CacheKey x y = Key (min x y) (max x y)"
    using assms(1) by (auto simp: CacheKey_def min_def max_def)
  have f2: "bucket_of (push_back (CacheKey y x) entry cache) ?k = bucket_of cache ?k @ [entry]"
    by (simp add: k bucket_of_push_back)
  have f3: "c \<in> set (bucket_of (m_cache w) ?k)" "m_start_time c \<le> now" "now \<le> m_end_time c"
    using first_fresh_Some [OF c] by (simp_all add: fresh_def)
  have f4: "v = Value (m_loss c)" if "GetPropagationLoss r1 now a b w = Inr (v, w')" for v w'
    using that by (auto simp: GetPropagationLoss_def split: sum.splits dest!: ab)
  have f5: "v = Value (m_loss c)" if "GetPropagationLoss r2 now b a w = Inr (v, w')" for v w'
    using that by (auto simp: GetPropagationLoss_def split: sum.splits dest!: ba)
  have f6: "d = m_delay c" if "skip_raytracing MAX_TXPOWER_DBM a b w = Inr None"
    "GetPropagationDelay r1 now a b w = Inr (d, w')" for d w'
    using that by (auto simp: GetPropagationDelay_def split: sum.splits dest!: ab)
  have f7: "d = m_delay c" if "skip_raytracing MAX_TXPOWER_DBM b a w = Inr None"
    "GetPropagationDelay r2 now b a w = Inr (d, w')" for d w'
    using that by (auto simp: GetPropagationDelay_def split: sum.splits dest!: ba)
  have f8: "v = Value (m_loss c)" if "skip_raytracing txPowerDbm a b w = Inr None"
    "GetPropagationLoss_txPowerDbm r1 now a b txPowerDbm w = Inr (v, w')" for v w'
    using that cfg(4)
    by (auto simp: GetPropagationLoss_txPowerDbm_def split: sum.splits if_splits dest!: ab)
  have f9: "v = Value (m_loss c)" if "skip_raytracing txPowerDbm b a w = Inr None"
    "GetPropagationLoss_txPowerDbm r2 now b a txPowerDbm w = Inr (v, w')" for v w'
    using that cfg(5)
    by (auto simp: GetPropagationLoss_txPowerDbm_def split: sum.splits if_splits dest!: ba)
  have f10: "GetPropagationData r1 now a b w =
              Inr (Entry c, (erase_outdated now ?k w)\<lparr>m_cache_hits := m_cache_hits w + 1\<rparr>)"
    "GetPropagationData r2 now b a w =
              Inr (Entry c, (erase_outdated now ?k w)\<lparr>m_cache_hits := m_cache_hits w + 1\<rparr>)"
    if "m_caching w"
    using GetPropagationData_hit [OF cfg that c] GetPropagationData_hit [OF cfg' that c']
    by (simp_all add: k)
  show ?thesis
    by (intro conjI bexI [where x = c] allI impI)
       (rule k [symmetric] f1 f2 f3 | erule ab ba f4 f5 f10 | erule (1) f6 f7 f8 f9)+
qed

theorem canonical_key_shared_bucket_witness:
  "GetPropagationData NoReply 150 (station 0) (station 1) (warm_cache True False) =
     Inr (Entry (stored 101 200 1 60),
          (warm_cache True False)
            \<lparr>m_cache := [Key 0 1 \<mapsto> [stored 101 200 1 60]], m_cache_hits := 1\<rparr>)
   \<and> GetPropagationData NoReply 150 (station 1) (station 0) (warm_cache True False) =
     Inr (Entry (stored 101 200 1 60),
          (warm_cache True False)
            \<lparr>m_cache := [Key 0 1 \<mapsto> [stored 101 200 1 60]], m_cache_hits := 1\<rparr>)"
proof -
  have hyps: "(0::NodeId) \<noteq> 1"
    "m_sionnaHelper (warm_cache True False) = Some wifi_helper"
    "sionna (station 0) \<noteq> None" "sionna (station 1) \<noteq> None"
    "node (station 0) = Some 0" "node (station 1) = Some 1"
    "stored 101 200 1 60 \<in> set (bucket_of (m_cache (warm_cache True False)) (CacheKey 0 1))"
    "m_start_time (stored 101 200 1 60) \<le> 150" "150 \<le> m_end_time (stored 101 200 1 60)"
    by (simp_all add: bucket_of_def)
  note shared = canonical_key_shared_bucket [OF hyps, where ?r1.0 = NoReply and ?r2.0 = NoReply]
  have "GetPropagationData NoReply 150 (station 0) (station 1) (warm_cache True False) =
     Inr (Entry (stored 101 200 1 60),
          (warm_cache True False)
            \<lparr>m_cache := [Key 0 1 \<mapsto> [stored 101 200 1 60]], m_cache_hits := 1\<rparr>)"
    and "GetPropagationData NoReply 150 (station 1) (station 0) (warm_cache True False) =
     Inr (Entry (stored 101 200 1 60),
          (warm_cache True False)
            \<lparr>m_cache := [Key 0 1 \<mapsto> [stored 101 200 1 60]], m_cache_hits := 1\<rparr>)"
    by (simp_all add: GetPropagationData_def fresh_def warm_cache_def new_cache_def)
  then show ?thesis
    using shared [THEN conjunct1] by simp
qed

lemma GetPropagationData_cases:
  assumes cfg: "m_sionnaHelper w = Some h" "sionna a \<noteq> None" "sionna b \<noteq> None"
    "node a = Some x" "node b = Some y"
    and res: "GetPropagationData r t a b w = Inr (s, w')"
  shows "(m_caching w \<and> (\<exists>c. s = Entry c
            \<and> first_fresh t (bucket_of (m_cache w) (CacheKey x y)) = Some c
            \<and> w' = (erase_outdated t (CacheKey x y) w)\<lparr>m_cache_hits := m_cache_hits w + 1\<rparr>))
       \<or> (\<exists>v. (v = w \<or> v = erase_outdated t (CacheKey x y) w)
              \<and> request_and_fill r t x y h v = Inr (s, w'))"
proof (cases "m_caching w")
  case False
  with GetPropagationData_uncached [OF cfg False] res show ?thesis by auto
next
  case True
  show ?thesis
  proof (cases "first_fresh t (bucket_of (m_cache w) (CacheKey x y))")
    case None
    from GetPropagationData_miss [OF cfg True None] res show ?thesis by auto
  next
    case (Some c)
    from GetPropagationData_hit [OF cfg True Some] res True Some show ?thesis by auto
  qed
qed

text \<open>
  C4. When a query misses and the server answers, every receiver record of every window of
  the response is turned into an entry that is stored in the bucket of the canonical key
  of the record's transmitter and receiver, with the window, ids, delay and loss of the
  record; exactly one request has been sent. With caching enabled, a later query for
  such a pair, in either orientation and at a time inside the window of the record, is a
  hit: it returns an entry whose window contains that time, sends no request, leaves the
  miss counter alone and adds one to the hit counter.
\<close>

theorem response_fans_out_into_buckets:
  assumes "m_sionnaHelper w = Some h" and "sionna a \<noteq> None" and "sionna b \<noteq> None"
    and "node a = Some x" and "node b = Some y"
    and "GetPropagationData (Reply (channel_state_response csis)) now a b w = Inr (s, w1)"
    and "m_cache_miss w1 = m_cache_miss w + 1"
    and "csi \<in> set csis" and "rx \<in> set (rx_nodes csi)"
  shows "(\<exists>entry. make_entry csi rx = Inr entry
            \<and> entry \<in> set (bucket_of (m_cache w1) (CacheKey (tx_id (tx_node csi)) (rx_id rx)))
            \<and> m_start_time entry = start_time csi \<and> m_end_time entry = end_time csi
            \<and> m_a entry = tx_id (tx_node csi) \<and> m_b entry = rx_id rx
            \<and> m_delay entry = rx_delay rx \<and> m_loss entry = rx_wb_loss rx)
       \<and> requests_sent w1 = requests_sent w @ [channel_state_request x y now]
       \<and> (\<forall>a2 b2 p q r2 now2.
             m_caching w \<and> sionna a2 \<noteq> None \<and> sionna b2 \<noteq> None
             \<and> node a2 = Some p \<and> node b2 = Some q
             \<and> CacheKey p q = CacheKey (tx_id (tx_node csi)) (rx_id rx)
             \<and> start_time csi \<le> now2 \<and> now2 \<le> end_time csi \<longrightarrow>
             (\<exists>c w2. GetPropagationData r2 now2 a2 b2 w1 = Inr (Entry c, w2)
                \<and> m_start_time c \<le> now2 \<and> now2 \<le> m_end_time c
                \<and> requests_sent w2 = requests_sent w1
                \<and> m_cache_miss w2 = m_cache_miss w1
                \<and> m_cache_hits w2 = m_cache_hits w1 + 1))"
proof -
  let ?k = "CacheKey (tx_id (tx_node csi)) (rx_id rx)"
  let ?r = "Reply (channel_state_response csis)"
  have cfg: "m_sionnaHelper w = Some h" "sionna a \<noteq> None" "sionna b \<noteq> None"
    "node a = Some x" "node b = Some y" by fact+
  from GetPropagationData_cases [OF cfg assms(6)] assms(7)
  obtain v where v: "v = w \<or> v = erase_outdated now (CacheKey x y) w"
    and rf: "request_and_fill ?r now x y h v = Inr (s, w1)"
    by (auto simp: erase_outdated_frame)
  from v have vh: "m_sionnaHelper v = Some h" and vc: "m_caching v = m_caching w"
    by (auto simp: erase_outdated_frame cfg)
  from request_and_fill_Inr [OF rf]
  have f: "fill_cache csis (m_cache v) = Inr (m_cache w1)"
    and w1: "w1 = v\<lparr>m_cache_miss := m_cache_miss v + 1,
                     m_sionnaHelper := Some (zmq_send (channel_state_request x y now) h),
                     m_cache := m_cache w1\<rparr>"
    by auto
  from fill_cache_made [OF f assms(8,9)] obtain entry
    where e: "make_entry csi rx = Inr entry" and ins: "entry \<in> set (inserted ?k csis)"
    by blast
  from ins fill_cache_bucket [OF f, of ?k]
  have mem: "entry \<in> set (bucket_of (m_cache w1) ?k)" by simp
  note fields = make_entry_fields [OF e]
  have sent: "requests_sent w1 = requests_sent w @ [channel_state_request x y now]"
    using requests_sent_request_and_fill(1) [OF rf] cfg(1) by (simp add: requests_sent_def)
  have h1: "m_sionnaHelper w1 = Some (zmq_send (channel_state_request x y now) h)"
    by (subst w1) simp
  have c1: "m_caching w1 = m_caching w"
    using requests_sent_request_and_fill(5) [OF rf] vc by simp
  have later: "\<exists>c w2. GetPropagationData r2 now2 a2 b2 w1 = Inr (Entry c, w2)
                \<and> m_start_time c \<le> now2 \<and> now2 \<le> m_end_time c
                \<and> requests_sent w2 = requests_sent w1
                \<and> m_cache_miss w2 = m_cache_miss w1
                \<and> m_cache_hits w2 = m_cache_hits w1 + 1"
    if "m_caching w \<and> sionna a2 \<noteq> None \<and> sionna b2 \<noteq> None
        \<and> node a2 = Some p \<and> node b2 = Some q \<and> CacheKey p q = ?k
        \<and> start_time csi \<le> now2 \<and> now2 \<le> end_time csi"
    for a2 b2 p q r2 now2
  proof -
    from that fields have "fresh now2 entry" by (simp add: fresh_def)
    with mem that obtain c
      where c: "first_fresh now2 (bucket_of (m_cache w1) (CacheKey p q)) = Some c"
      using first_fresh_exists by metis
    from that c1 have "m_caching w1" by simp
    from GetPropagationData_hit [OF h1 _ _ _ _ this c, of a2 b2 r2] that
    have "GetPropagationData r2 now2 a2 b2 w1 =
            Inr (Entry c, (erase_outdated now2 (CacheKey p q) w1)
                            \<lparr>m_cache_hits := m_cache_hits w1 + 1\<rparr>)"
      by simp
    with first_fresh_Some [OF c] show ?thesis
      by (simp add: fresh_def requests_sent_def erase_outdated_frame)
  qed
  from e mem fields sent later show ?thesis by blast
qed

text \<open>
  C10. After \<^verbatim>\<open>SetCaching(false)\<close>, a query that returns has counted one miss and no
  hit and has sent one request, whatever the store held; no entry has been erased: every
  bucket is
  its old content followed by the entries of the response for that key, every record of
  the response is stored under its canonical key, and the answer is read from the store
  (the first entry of the queried bucket whose window contains \<open>now\<close>). A well-formed
  response makes the call return.
\<close>

theorem caching_disabled_still_fills_store:
  assumes "w = SetCaching False w0"
    and "m_sionnaHelper w0 = Some h" and "sionna a \<noteq> None" and "sionna b \<noteq> None"
    and "node a = Some x" and "node b = Some y"
  shows "(\<forall>s w'. GetPropagationData r now a b w = Inr (s, w') \<longrightarrow>
            m_cache_miss w' = m_cache_miss w + 1
            \<and> m_cache_hits w' = m_cache_hits w
            \<and> requests_sent w' = requests_sent w @ [channel_state_request x y now]
            \<and> (\<exists>csis. r = Reply (channel_state_response csis)
                  \<and> (\<forall>key. bucket_of (m_cache w') key =
                              bucket_of (m_cache w) key @ inserted key csis)
                  \<and> (\<forall>csi \<in> set csis. \<forall>rx \<in> set (rx_nodes csi).
                        \<exists>entry. make_entry csi rx = Inr entry
                          \<and> entry \<in> set (bucket_of (m_cache w')
                                            (CacheKey (tx_id (tx_node csi)) (rx_id rx)))))
            \<and> s = serve now (bucket_of (m_cache w') (CacheKey x y)))
       \<and> (\<forall>csis. r = Reply (channel_state_response csis) \<and> well_formed csis \<longrightarrow>
            (\<exists>s w'. GetPropagationData r now a b w = Inr (s, w')))"
proof -
  have cfg: "m_sionnaHelper w = Some h" "sionna a \<noteq> None" "sionna b \<noteq> None"
    "node a = Some x" "node b = Some y" "\<not> m_caching w"
    using assms by (simp_all add: SetCaching_def)
  show ?thesis
  proof (intro conjI allI impI)
    fix csis
    assume "r = Reply (channel_state_response csis) \<and> well_formed csis"
    with GetPropagationData_uncached [OF cfg, of r now] request_and_fill_total
    show "\<exists>s w'. GetPropagationData r now a b w = Inr (s, w')" by simp
  next
    fix s w'
    assume "GetPropagationData r now a b w = Inr (s, w')"
    with GetPropagationData_uncached [OF cfg, of r now]
    have rf: "request_and_fill r now x y h w = Inr (s, w')" by simp
    from requests_sent_request_and_fill [OF rf] cfg(1)
    show "m_cache_miss w' = m_cache_miss w + 1" and "m_cache_hits w' = m_cache_hits w"
      and "requests_sent w' = requests_sent w @ [channel_state_request x y now]"
      by (simp_all add: requests_sent_def)
    from request_and_fill_Inr [OF rf] obtain csis
      where r: "r = Reply (channel_state_response csis)"
        and f: "fill_cache csis (m_cache w) = Inr (m_cache w')"
        and s: "s = serve now (bucket_of (m_cache w') (CacheKey x y))" by blast
    from s show "s = serve now (bucket_of (m_cache w') (CacheKey x y))" .
    have made: "\<exists>entry. make_entry csi rx = Inr entry
        \<and> entry \<in> set (bucket_of (m_cache w') (CacheKey (tx_id (tx_node csi)) (rx_id rx)))"
      if "csi \<in> set csis" "rx \<in> set (rx_nodes csi)" for csi rx
      using fill_cache_made [OF f that] fill_cache_bucket [OF f] by auto
    from r fill_cache_bucket [OF f] made
    show "\<exists>csis. r = Reply (channel_state_response csis)
            \<and> (\<forall>key. bucket_of (m_cache w') key = bucket_of (m_cache w) key @ inserted key csis)
            \<and> (\<forall>csi \<in> set csis. \<forall>rx \<in> set (rx_nodes csi).
                  \<exists>entry. make_entry csi rx = Inr entry
                    \<and> entry \<in> set (bucket_of (m_cache w')
                                      (CacheKey (tx_id (tx_node csi)) (rx_id rx))))"
      by blast
  qed
qed

lemma GetPropagationData_configured:
  assumes "GetPropagationData r t a b w = Inr (s, w')"
  obtains h x y where "m_sionnaHelper w = Some h" "sionna a \<noteq> None" "sionna b \<noteq> None"
    "node a = Some x" "node b = Some y"
  using assms by (auto simp: GetPropagationData_def split: option.splits if_splits)

lemma GetPropagationData_frame:
  assumes "GetPropagationData r t a b w = Inr (s, w')"
  shows "m_position w' = m_position w"
    and "m_cache_hits w' + m_cache_miss w' = m_cache_hits w + m_cache_miss w + 1"
proof -
  from assms obtain h x y where cfg: "m_sionnaHelper w = Some h" "sionna a \<noteq> None"
    "sionna b \<noteq> None" "node a = Some x" "node b = Some y"
    by (rule GetPropagationData_configured)
  from GetPropagationData_cases [OF cfg assms]
  consider (hit) "w' = (erase_outdated t (CacheKey x y) w)\<lparr>m_cache_hits := m_cache_hits w + 1\<rparr>"
    | (miss) v where "v = w \<or> v = erase_outdated t (CacheKey x y) w"
        "request_and_fill r t x y h v = Inr (s, w')"
    by blast
  then have "m_position w' = m_position w
    \<and> m_cache_hits w' + m_cache_miss w' = m_cache_hits w + m_cache_miss w + 1"
  proof cases
    case hit
    then show ?thesis by (simp add: erase_outdated_frame)
  next
    case miss
    from requests_sent_request_and_fill(2,3,4) [OF miss(2)] miss(1)
    show ?thesis by (auto simp: erase_outdated_frame)
  qed
  then show "m_position w' = m_position w"
    and "m_cache_hits w' + m_cache_miss w' = m_cache_hits w + m_cache_miss w + 1"
    by simp_all
qed

lemma stored_cfr:
  "m_freq (stored t0 t1 i l) = [5210]" "m_cfr (stored t0 t1 i l) = [Complex 1 0]"
  by (simp_all add: stored_def CacheEntry_def)

text \<open>Whenever the response leaves the queried bucket without an entry whose window
  contains the query time, the request path returns the dummy entry.\<close>

lemma request_and_fill_without_fresh_entry:
  assumes "fill_cache csis (m_cache w) = Inr cache'"
    and "first_fresh t (bucket_of cache' (CacheKey x y)) = None"
  shows "request_and_fill (Reply (channel_state_response csis)) t x y h w =
           Inr (dummy_entry,
                w\<lparr>m_cache_miss := m_cache_miss w + 1,
                  m_sionnaHelper := Some (zmq_send (channel_state_request x y t) h),
                  m_cache := cache'\<rparr>)"
  using request_and_fill_response [OF assms(1), of t x y h] assms(2)
  by (simp add: serve_def)

text \<open>
  C1. A query for stations 0 and 1 at time 50 on the empty cache, answered by a response
  whose only window is [101, 200]: after the response is stored no entry of the pair
  contains time 50, and the call returns the default-constructed entry with the updated
  state; it does not end the run.
\<close>

theorem refill_without_live_entry_returns_dummy:
  "GetPropagationData (Reply (channel_state_response [window 101 200])) 50
     (station 0) (station 1) (new_cache True False) =
   Inr (dummy_entry,
        (new_cache True False)
          \<lparr>m_cache := [Key 0 1 \<mapsto> [stored 101 200 1 60], Key 0 2 \<mapsto> [stored 101 200 2 70]],
           m_cache_miss := 1,
           m_sionnaHelper := Some (zmq_send (channel_state_request 0 1 50) wifi_helper)\<rparr>)"
  by (simp add: GetPropagationData_def request_and_fill_def fresh_def push_back_def
        Let_def new_cache_def)

lemma dummy_loss_indeterminate:
  "\<exists>w'. GetPropagationLoss (Reply (channel_state_response [window 101 200])) 50
     (station 0) (station 1) (new_cache True False) = Inr (Indeterminate, w')"
  by (simp add: GetPropagationLoss_def GetPropagationData_def request_and_fill_def fresh_def
        push_back_def Let_def new_cache_def)

text \<open>
  C7. When \<^verbatim>\<open>GetPropagationLoss(a, b, txPowerDbm)\<close> does not take the fast path and
  \<^verbatim>\<open>GetPropagationData\<close> serves entry \<open>ce\<close>, for two distinct mobility objects: the call
  returns the loss of \<open>ce\<close>, and afterwards, if the node id of \<open>a\<close> is \<open>m_a ce\<close>, the
  position of \<open>a\<close> is \<open>m_a_position ce\<close> and that of \<open>b\<close> is \<open>m_b_position ce\<close>;
  otherwise the position of \<open>a\<close> is \<open>m_b_position ce\<close> and that of \<open>b\<close> is
  \<open>m_a_position ce\<close>.
\<close>

theorem positions_written_back:
  assumes "skip_raytracing txPowerDbm a b w = Inr None"
    and "GetPropagationData r now a b w = Inr (Entry ce, w')"
    and "node a = Some id_a" and "addr a \<noteq> addr b"
  shows "\<exists>w''. GetPropagationLoss_txPowerDbm r now a b txPowerDbm w =
                  Inr (Value (m_loss ce), w'')
           \<and> (if id_a = m_a ce
               then GetPosition a w'' = m_a_position ce \<and> GetPosition b w'' = m_b_position ce
               else GetPosition a w'' = m_b_position ce \<and> GetPosition b w'' = m_a_position ce)"
  using assms
  by (simp add: GetPropagationLoss_txPowerDbm_def GetPosition_def SetPosition_def)

text \<open>
  C9. \<^verbatim>\<open>GetPropagationDelay\<close>, the two-argument \<^verbatim>\<open>GetPropagationLoss\<close>,
  \<^verbatim>\<open>GetPropagationCSI\<close> and \<^verbatim>\<open>GetPropagationFreq\<close> leave the position of every mobility
  object as it was, whatever the orientation of the entry served; the three-argument
  \<^verbatim>\<open>GetPropagationLoss\<close>, when it serves an entry, overwrites the positions of \<open>a\<close>
  and \<open>b\<close> with the two positions of the entry.
\<close>

theorem only_loss_with_tx_power_moves_endpoints:
  "(\<forall>d w'. GetPropagationDelay r now a b w = Inr (d, w') \<longrightarrow> m_position w' = m_position w)
   \<and> (\<forall>v w'. GetPropagationLoss r now a b w = Inr (v, w') \<longrightarrow> m_position w' = m_position w)
   \<and> (\<forall>v w'. GetPropagationCSI r now a b w = Inr (v, w') \<longrightarrow> m_position w' = m_position w)
   \<and> (\<forall>v w'. GetPropagationFreq r now a b w = Inr (v, w') \<longrightarrow> m_position w' = m_position w)
   \<and> (\<forall>ce w' id_a.
         skip_raytracing txPowerDbm a b w = Inr None
         \<and> GetPropagationData r now a b w = Inr (Entry ce, w') \<and> node a = Some id_a \<longrightarrow>
         (\<exists>w''. GetPropagationLoss_txPowerDbm r now a b txPowerDbm w =
                   Inr (Value (m_loss ce), w'')
            \<and> m_position w'' =
                (if id_a = m_a ce
                 then (m_position w)(addr a := m_a_position ce, addr b := m_b_position ce)
                 else (m_position w)(addr a := m_b_position ce, addr b := m_a_position ce))))"
proof (intro conjI allI impI)
  fix d w'
  assume "GetPropagationDelay r now a b w = Inr (d, w')"
  then show "m_position w' = m_position w"
    by (auto simp: GetPropagationDelay_def split: sum.splits option.splits
          dest: GetPropagationData_frame(1))
next
  fix v w'
  assume "GetPropagationLoss r now a b w = Inr (v, w')"
  then show "m_position w' = m_position w"
    by (auto simp: GetPropagationLoss_def split: sum.splits dest: GetPropagationData_frame(1))
next
  fix v w'
  assume "GetPropagationCSI r now a b w = Inr (v, w')"
  then show "m_position w' = m_position w"
    by (auto simp: GetPropagationCSI_def split: sum.splits dest: GetPropagationData_frame(1))
next
  fix v w'
  assume "GetPropagationFreq r now a b w = Inr (v, w')"
  then show "m_position w' = m_position w"
    by (auto simp: GetPropagationFreq_def split: sum.splits dest: GetPropagationData_frame(1))
next
  fix ce w' id_a
  assume h: "skip_raytracing txPowerDbm a b w = Inr None
         \<and> GetPropagationData r now a b w = Inr (Entry ce, w') \<and> node a = Some id_a"
  then have "m_position w' = m_position w" by (auto dest: GetPropagationData_frame(1))
  with h show "\<exists>w''. GetPropagationLoss_txPowerDbm r now a b txPowerDbm w =
                   Inr (Value (m_loss ce), w'')
            \<and> m_position w'' =
                (if id_a = m_a ce
                 then (m_position w)(addr a := m_a_position ce, addr b := m_b_position ce)
                 else (m_position w)(addr a := m_b_position ce, addr b := m_a_position ce))"
    by (simp add: GetPropagationLoss_txPowerDbm_def SetPosition_def)
qed

text \<open>
  C5, amended. With the optimization enabled, if the Friis received power at the requested
  transmit power plus the margin is below the noise floor of the helper, then
  \<^verbatim>\<open>GetPropagationLoss(a, b, txPowerDbm)\<close> returns the transmit power minus that received
  power and leaves the whole state as it was (no cache access, no request), whatever the
  server would reply; the margin is the constant 0.
\<close>

theorem friis_fast_path_loss:
  assumes "m_optimize w" and "m_sionnaHelper w = Some h"
    and "m_friisLossModel w txPowerDbm (GetPosition a w) (GetPosition b w) + m_optimize_margin
           < GetNoiseFloor h"
  shows "GetPropagationLoss_txPowerDbm r now a b txPowerDbm w =
           Inr (Value (txPowerDbm
                  - m_friisLossModel w txPowerDbm (GetPosition a w) (GetPosition b w)), w)
       \<and> m_optimize_margin = 0"
  using assms
  by (simp add: GetPropagationLoss_txPowerDbm_def skip_raytracing_def Let_def
        m_optimize_margin_def)

text \<open>
  C5 as stated fails: under a margin configured to 5 dB the rule of the specification keeps
  a link with -100 dBm received power and a noise floor of -97 dBm on the ray-tracing
  path, but the code, whose margin is a constant, takes the fast path.
\<close>

theorem margin_is_not_configurable:
  "\<not> spec_decision_rule 5
       (m_friisLossModel (new_cache True True) 20
          (GetPosition (station 0) (new_cache True True))
          (GetPosition (station 1) (new_cache True True)))
       (GetNoiseFloor wifi_helper)
   \<and> GetPropagationLoss_txPowerDbm NoReply 0 (station 0) (station 1) 20 (new_cache True True) =
       Inr (Value 120, new_cache True True)"
  by (simp add: spec_decision_rule_def GetPropagationLoss_txPowerDbm_def skip_raytracing_def
        Let_def m_optimize_margin_def GetNoiseFloor_def GetPosition_def new_cache_def
        wifi_helper_def)

text \<open>
  C6, amended. With the optimization enabled, \<^verbatim>\<open>GetPropagationDelay\<close> (at the fixed
  transmit power of 20 dBm) and the three-argument \<^verbatim>\<open>GetPropagationLoss\<close> (at the
  requested one) return the fallback value and leave the state as it was when the Friis
  received power plus the margin is below the noise floor. The two-argument
  \<^verbatim>\<open>GetPropagationLoss\<close>, \<^verbatim>\<open>GetPropagationCSI\<close> and \<^verbatim>\<open>GetPropagationFreq\<close> have no such
  check: whenever they return, the lookup was counted as a hit or as a miss.
\<close>

theorem fast_path_in_delay_and_loss_with_tx_power:
  assumes "m_optimize w" and "m_sionnaHelper w = Some h"
  shows "(m_friisLossModel w MAX_TXPOWER_DBM (GetPosition a w) (GetPosition b w)
            + m_optimize_margin < GetNoiseFloor h \<longrightarrow>
          GetPropagationDelay r now a b w =
            Inr (m_constSpeedDelayModel w (GetPosition a w) (GetPosition b w), w))
       \<and> (m_friisLossModel w txPowerDbm (GetPosition a w) (GetPosition b w)
            + m_optimize_margin < GetNoiseFloor h \<longrightarrow>
          GetPropagationLoss_txPowerDbm r now a b txPowerDbm w =
            Inr (Value (txPowerDbm
                   - m_friisLossModel w txPowerDbm (GetPosition a w) (GetPosition b w)), w))
       \<and> (\<forall>v w'. GetPropagationLoss r now a b w = Inr (v, w') \<longrightarrow>
             m_cache_hits w' + m_cache_miss w' = m_cache_hits w + m_cache_miss w + 1)
       \<and> (\<forall>v w'. GetPropagationCSI r now a b w = Inr (v, w') \<longrightarrow>
             m_cache_hits w' + m_cache_miss w' = m_cache_hits w + m_cache_miss w + 1)
       \<and> (\<forall>v w'. GetPropagationFreq r now a b w = Inr (v, w') \<longrightarrow>
             m_cache_hits w' + m_cache_miss w' = m_cache_hits w + m_cache_miss w + 1)"
proof (intro conjI allI impI)
  assume "m_friisLossModel w MAX_TXPOWER_DBM (GetPosition a w) (GetPosition b w)
            + m_optimize_margin < GetNoiseFloor h"
  with assms show "GetPropagationDelay r now a b w =
            Inr (m_constSpeedDelayModel w (GetPosition a w) (GetPosition b w), w)"
    by (simp add: GetPropagationDelay_def skip_raytracing_def Let_def)
next
  assume "m_friisLossModel w txPowerDbm (GetPosition a w) (GetPosition b w)
            + m_optimize_margin < GetNoiseFloor h"
  with assms show "GetPropagationLoss_txPowerDbm r now a b txPowerDbm w =
            Inr (Value (txPowerDbm
                   - m_friisLossModel w txPowerDbm (GetPosition a w) (GetPosition b w)), w)"
    by (simp add: GetPropagationLoss_txPowerDbm_def skip_raytracing_def Let_def)
next
  fix v w'
  assume "GetPropagationLoss r now a b w = Inr (v, w')"
  then show "m_cache_hits w' + m_cache_miss w' = m_cache_hits w + m_cache_miss w + 1"
    by (auto simp: GetPropagationLoss_def split: sum.splits dest: GetPropagationData_frame(2))
next
  fix v w'
  assume "GetPropagationCSI r now a b w = Inr (v, w')"
  then show "m_cache_hits w' + m_cache_miss w' = m_cache_hits w + m_cache_miss w + 1"
    by (auto simp: GetPropagationCSI_def split: sum.splits dest: GetPropagationData_frame(2))
next
  fix v w'
  assume "GetPropagationFreq r now a b w = Inr (v, w')"
  then show "m_cache_hits w' + m_cache_miss w' = m_cache_hits w + m_cache_miss w + 1"
    by (auto simp: GetPropagationFreq_def split: sum.splits dest: GetPropagationData_frame(2))
qed

text \<open>
  C6 as stated fails: with the optimization enabled and the link below the noise floor,
  \<^verbatim>\<open>GetPropagationCSI\<close> on the empty cache still sends a request and returns the
  coefficients of the response.
\<close>

theorem csi_accessor_has_no_fast_path:
  "skip_raytracing MAX_TXPOWER_DBM (station 0) (station 1) (new_cache True True) =
     Inr (Some (- 100))
   \<and> GetPropagationCSI (Reply (channel_state_response [window 0 100])) 50
       (station 0) (station 1) (new_cache True True) =
     Inr ([Complex 1 0],
          (new_cache True True)
            \<lparr>m_cache := [Key 0 1 \<mapsto> [stored 0 100 1 60], Key 0 2 \<mapsto> [stored 0 100 2 70]],
             m_cache_miss := 1,
             m_sionnaHelper := Some (zmq_send (channel_state_request 0 1 50) wifi_helper)\<rparr>)"
  by (simp add: GetPropagationCSI_def GetPropagationData_def request_and_fill_def fresh_def
        push_back_def Let_def skip_raytracing_def MAX_TXPOWER_DBM_def m_optimize_margin_def
        GetNoiseFloor_def GetPosition_def new_cache_def wifi_helper_def stored_cfr)

text \<open>
  C8. \<^verbatim>\<open>Destroy\<close> on an acknowledgment that carries an error status: the socket is
  closed and the call returns; the run is not aborted.
\<close>

theorem Destroy_accepts_error_ack:
  "Destroy (Reply (sim_ack False error_msg)) h =
     Inr ((zmq_send sim_close_request h)
            \<lparr>m_zmq_socket := (m_zmq_socket (zmq_send sim_close_request h))\<lparr>closed := True\<rparr>\<rparr>)"
  by (simp add: Destroy_def Let_def)

lemma Start_checks_reply:
  "\<exists>e. Start rng_seed GetModeWall positions c NoReply h = Inl e"
  "\<exists>e. Start rng_seed GetModeWall positions c (Reply (sim_ack False error_msg)) h = Inl e"
  by (simp_all add: Start_def Let_def split: sum.splits)

lemma Start_checks_ack:
  assumes "\<And>no_error error_msg. reply_wrapper \<noteq> sim_ack no_error error_msg"
  shows "\<exists>e. Start rng_seed GetModeWall positions c (Reply reply_wrapper) h = Inl e"
proof (cases reply_wrapper)
  case (sim_ack no_error error_msg)
  with assms show ?thesis by blast
qed (simp_all add: Start_def Let_def split: sum.splits)

lemma Destroy_checks_ack:
  assumes "\<And>no_error error_msg. reply_wrapper \<noteq> sim_ack no_error error_msg"
  shows "\<exists>e. Destroy (Reply reply_wrapper) h = Inl e"
proof (cases reply_wrapper)
  case (sim_ack no_error error_msg)
  with assms show ?thesis by blast
qed (simp_all add: Destroy_def Let_def)

lemma Destroy_checks_reply: "\<exists>e. Destroy NoReply h = Inl e"
  by (simp add: Destroy_def Let_def)

section \<open>The properties at the scenario\<close>

lemma filled_eval:
  "GetPropagationData (Reply (channel_state_response lookahead)) 50
     (station 0) (station 1) (new_cache True False) =
   Inr (Entry (stored 0 100 1 60), filled_cache)"
  by (simp add: GetPropagationData_def request_and_fill_def fresh_def push_back_def
        Let_def lookahead_def filled_cache_def new_cache_def fun_upd_shadow)

theorem response_fans_out_into_buckets_witness:
  "GetPropagationData (Reply (channel_state_response lookahead)) 50
     (station 0) (station 1) (new_cache True False) =
   Inr (Entry (stored 0 100 1 60), filled_cache)
   \<and> GetPropagationData NoReply 150 (station 2) (station 0) filled_cache =
   Inr (Entry (stored 101 200 2 70),
        filled_cache
          \<lparr>m_cache := [Key 0 1 \<mapsto> [stored 0 100 1 60, stored 101 200 1 60],
                       Key 0 2 \<mapsto> [stored 101 200 2 70]],
           m_cache_hits := 1\<rparr>)"
proof -
  have hyps: "m_sionnaHelper (new_cache True False) = Some wifi_helper"
    "sionna (station 0) \<noteq> None" "sionna (station 1) \<noteq> None"
    "node (station 0) = Some 0" "node (station 1) = Some 1"
    "GetPropagationData (Reply (channel_state_response lookahead)) 50
       (station 0) (station 1) (new_cache True False) =
     Inr (Entry (stored 0 100 1 60), filled_cache)"
    "m_cache_miss filled_cache = m_cache_miss (new_cache True False) + 1"
    "window 101 200 \<in> set lookahead" "rx_record 2 70 \<in> set (rx_nodes (window 101 200))"
    by (simp_all add: filled_eval) (simp_all add: filled_cache_def lookahead_def)
  note fan = response_fans_out_into_buckets [OF hyps]
  have "GetPropagationData NoReply 150 (station 2) (station 0) filled_cache =
     Inr (Entry (stored 101 200 2 70),
        filled_cache
          \<lparr>m_cache := [Key 0 1 \<mapsto> [stored 0 100 1 60, stored 101 200 1 60],
                       Key 0 2 \<mapsto> [stored 101 200 2 70]],
           m_cache_hits := 1\<rparr>)"
    by (simp add: GetPropagationData_def fresh_def filled_cache_def new_cache_def)
  with hyps(6) fan [THEN conjunct2, THEN conjunct1] show ?thesis by simp
qed

theorem caching_disabled_still_fills_store_witness:
  "GetPropagationData (Reply (channel_state_response [window 140 160])) 150
     (station 0) (station 1) (warm_cache False False) =
   Inr (Entry (stored 101 200 1 60),
        (warm_cache False False)
          \<lparr>m_cache := [Key 0 1 \<mapsto> [stored 0 100 1 60, stored 101 200 1 60, stored 140 160 1 60],
                       Key 0 2 \<mapsto> [stored 140 160 2 70]],
           m_cache_miss := 1,
           m_sionnaHelper := Some (zmq_send (channel_state_request 0 1 150) wifi_helper)\<rparr>)"
proof -
  have hyps: "warm_cache False False = SetCaching False (warm_cache True False)"
    "m_sionnaHelper (warm_cache True False) = Some wifi_helper"
    "sionna (station 0) \<noteq> None" "sionna (station 1) \<noteq> None"
    "node (station 0) = Some 0" "node (station 1) = Some 1"
    by (simp_all add: SetCaching_def warm_cache_def new_cache_def)
  note off = caching_disabled_still_fills_store [OF hyps, where now = 150
      and r = "Reply (channel_state_response [window 140 160])"]
  have "GetPropagationData (Reply (channel_state_response [window 140 160])) 150
     (station 0) (station 1) (warm_cache False False) =
   Inr (Entry (stored 101 200 1 60),
        (warm_cache False False)
          \<lparr>m_cache := [Key 0 1 \<mapsto> [stored 0 100 1 60, stored 101 200 1 60, stored 140 160 1 60],
                       Key 0 2 \<mapsto> [stored 140 160 2 70]],
           m_cache_miss := 1,
           m_sionnaHelper := Some (zmq_send (channel_state_request 0 1 150) wifi_helper)\<rparr>)"
    by (simp add: GetPropagationData_def request_and_fill_def fresh_def push_back_def
          Let_def warm_cache_def new_cache_def)
  with off [THEN conjunct2] show ?thesis by simp
qed

lemma warm_hit_reversed:
  "GetPropagationData NoReply 150 (station 1) (station 0) (warm_cache True False) =
     Inr (Entry (stored 101 200 1 60),
          (warm_cache True False)
            \<lparr>m_cache := [Key 0 1 \<mapsto> [stored 101 200 1 60]], m_cache_hits := 1\<rparr>)"
  by (simp add: GetPropagationData_def fresh_def warm_cache_def new_cache_def)

theorem positions_written_back_witness:
  "GetPropagationLoss_txPowerDbm NoReply 150 (station 1) (station 0) 20 (warm_cache True False) =
     Inr (Value 60,
          (warm_cache True False)
            \<lparr>m_cache := [Key 0 1 \<mapsto> [stored 101 200 1 60]], m_cache_hits := 1,
             m_position := (\<lambda>n. Vector (real n) 0 0)(1 := Vector 10 0 0, 0 := Vector 5 0 0)\<rparr>)"
proof -
  have hyps: "skip_raytracing 20 (station 1) (station 0) (warm_cache True False) = Inr None"
    "GetPropagationData NoReply 150 (station 1) (station 0) (warm_cache True False) =
     Inr (Entry (stored 101 200 1 60),
          (warm_cache True False)
            \<lparr>m_cache := [Key 0 1 \<mapsto> [stored 101 200 1 60]], m_cache_hits := 1\<rparr>)"
    "node (station 1) = Some 1" "addr (station 1) \<noteq> addr (station 0)"
    by (simp_all add: warm_hit_reversed) (simp add: skip_raytracing_def)
  note written = positions_written_back [OF hyps]
  have "GetPropagationLoss_txPowerDbm NoReply 150 (station 1) (station 0) 20 (warm_cache True False) =
     Inr (Value 60,
          (warm_cache True False)
            \<lparr>m_cache := [Key 0 1 \<mapsto> [stored 101 200 1 60]], m_cache_hits := 1,
             m_position := (\<lambda>n. Vector (real n) 0 0)(1 := Vector 10 0 0, 0 := Vector 5 0 0)\<rparr>)"
    by (simp add: GetPropagationLoss_txPowerDbm_def hyps SetPosition_def)
       (simp add: warm_cache_def new_cache_def)
  with written show ?thesis by simp
qed

theorem only_loss_with_tx_power_moves_endpoints_witness:
  "GetPropagationDelay NoReply 150 (station 1) (station 0) (warm_cache True False) =
     Inr (33, (warm_cache True False)
                \<lparr>m_cache := [Key 0 1 \<mapsto> [stored 101 200 1 60]], m_cache_hits := 1\<rparr>)
   \<and> GetPropagationCSI NoReply 150 (station 1) (station 0) (warm_cache True False) =
     Inr ([Complex 1 0], (warm_cache True False)
                \<lparr>m_cache := [Key 0 1 \<mapsto> [stored 101 200 1 60]], m_cache_hits := 1\<rparr>)
   \<and> m_position ((warm_cache True False)
                \<lparr>m_cache := [Key 0 1 \<mapsto> [stored 101 200 1 60]], m_cache_hits := 1\<rparr>) =
       m_position (warm_cache True False)"
proof -
  note frame = only_loss_with_tx_power_moves_endpoints
    [where r = NoReply and now = 150 and a = "station 1" and b = "station 0"
       and w = "warm_cache True False" and txPowerDbm = 20]
  have "GetPropagationDelay NoReply 150 (station 1) (station 0) (warm_cache True False) =
     Inr (33, (warm_cache True False)
                \<lparr>m_cache := [Key 0 1 \<mapsto> [stored 101 200 1 60]], m_cache_hits := 1\<rparr>)"
    and "GetPropagationCSI NoReply 150 (station 1) (station 0) (warm_cache True False) =
     Inr ([Complex 1 0], (warm_cache True False)
                \<lparr>m_cache := [Key 0 1 \<mapsto> [stored 101 200 1 60]], m_cache_hits := 1\<rparr>)"
    by (simp_all add: GetPropagationDelay_def GetPropagationCSI_def warm_hit_reversed
          skip_raytracing_def stored_cfr)
  with frame [THEN conjunct1] show ?thesis by simp
qed

theorem friis_fast_path_loss_witness:
  "GetPropagationLoss_txPowerDbm NoReply 0 (station 0) (station 1) 20 (new_cache True True) =
     Inr (Value 120, new_cache True True)"
proof -
  have hyps: "m_optimize (new_cache True True)"
    "m_sionnaHelper (new_cache True True) = Some wifi_helper"
    "m_friisLossModel (new_cache True True) 20
        (GetPosition (station 0) (new_cache True True))
        (GetPosition (station 1) (new_cache True True)) + m_optimize_margin
      < GetNoiseFloor wifi_helper"
    by (simp_all add: m_optimize_margin_def GetNoiseFloor_def wifi_helper_def)
  from friis_fast_path_loss [OF hyps, of NoReply 0] show ?thesis by simp
qed

theorem fast_path_in_delay_and_loss_with_tx_power_witness:
  "GetPropagationDelay NoReply 0 (station 0) (station 1) (new_cache True True) =
     Inr (33, new_cache True True)
   \<and> GetPropagationLoss_txPowerDbm NoReply 0 (station 0) (station 1) 20 (new_cache True True) =
     Inr (Value 120, new_cache True True)"
proof -
  have hyps: "m_optimize (new_cache True True)"
    "m_sionnaHelper (new_cache True True) = Some wifi_helper" by simp_all
  from fast_path_in_delay_and_loss_with_tx_power [OF hyps, where a = "station 0"
      and b = "station 1" and r = NoReply and now = 0 and txPowerDbm = 20]
  show ?thesis
    by (simp add: m_optimize_margin_def GetNoiseFloor_def wifi_helper_def MAX_TXPOWER_DBM_def)
qed

end
